theory Spec2Isabelle
  imports Main
begin

section \<open>Python values and errors\<close>

text \<open>
  The module \<^verbatim>\<open>ppcls/arch/backbone/model_zoo/xception_deeplab.py\<close> is dynamically
  typed: \<^verbatim>\<open>check_data\<close> takes an int or a sequence, \<^verbatim>\<open>_load_pretrained\<close> takes a
  bool, a string or anything else. The values that reach these functions are the
  constructors of \<open>pyval\<close>; Python's unbounded integers are \<open>int\<close>.
\<close>

datatype pyval =
    PyNone
  | PyBool bool
  | PyInt int
  | PyStr string
  | PyList "pyval list"

text \<open>
  Every \<^verbatim>\<open>raise\<close>, failed \<^verbatim>\<open>assert\<close> and failing built-in operation is a value of
  \<open>error\<close>; a function that can raise returns \<open>error + 'a\<close>, with \<open>Inl\<close> the exception.
\<close>

datatype error =
    AssertionError
  | TypeError
  | IndexError
  | KeyError string
  | AttributeError string
  | Exception string
  | RuntimeError string

definition bind :: "error + 'a \<Rightarrow> ('a \<Rightarrow> error + 'b) \<Rightarrow> error + 'b" where
  "bind m f = (case m of Inl e \<Rightarrow> Inl e | Inr x \<Rightarrow> f x)"

text \<open>\<^verbatim>\<open>d[key]\<close> on a dict, kept as an association list in the order of the literal.\<close>

definition dict_get :: "(string \<times> 'v) list \<Rightarrow> string \<Rightarrow> error + 'v" where
  "dict_get d k = (case map_of d k of None \<Rightarrow> Inl (KeyError k) | Some v \<Rightarrow> Inr v)"

text \<open>
  \<^verbatim>\<open>xs[i]\<close>: a negative index counts from the end, an index out of range raises
  IndexError, a value that is not subscriptable raises TypeError.
\<close>

definition list_getitem :: "'a list \<Rightarrow> int \<Rightarrow> error + 'a" where
  "list_getitem xs i =
     (if 0 \<le> i \<and> i < int (length xs) then Inr (xs ! nat i)
      else if i < 0 \<and> - int (length xs) \<le> i then Inr (xs ! nat (int (length xs) + i))
      else Inl IndexError)"

fun getitem :: "pyval \<Rightarrow> int \<Rightarrow> error + pyval" where
  "getitem (PyList xs) i = list_getitem xs i"
| "getitem (PyStr cs) i = bind (list_getitem cs i) (\<lambda>c. Inr (PyStr [c]))"
| "getitem v i = Inl TypeError"

text \<open>
  Where a value is used as a number (\<^verbatim>\<open>s * self.strides[i]\<close>, \<^verbatim>\<open>filter // 2\<close>, a channel
  count or stride handed to a layer of the framework) it has to be an int; \<^verbatim>\<open>bool\<close> is a
  subclass of \<^verbatim>\<open>int\<close> in Python. Anything else is a TypeError there.
\<close>

fun as_int :: "pyval \<Rightarrow> error + int" where
  "as_int (PyInt i) = Inr i"
| "as_int (PyBool b) = Inr (if b then 1 else 0)"
| "as_int v = Inl TypeError"

definition item_int :: "pyval \<Rightarrow> int \<Rightarrow> error + int" where
  "item_int v i = bind (getitem v i) as_int"

text \<open>\<^verbatim>\<open>str(n)\<close> for an int, in decimal.\<close>

definition digit_char :: "nat \<Rightarrow> char" where
  "digit_char d = ''0123456789'' ! d"

fun str_nat :: "nat \<Rightarrow> string" where
  "str_nat n = (if n < 10 then [digit_char n] else str_nat (n div 10) @ [digit_char (n mod 10)])"

declare str_nat.simps [simp del]

definition str :: "int \<Rightarrow> string" where
  "str i = (if i < 0 then CHR ''-'' # str_nat (nat (- i)) else str_nat (nat i))"

section \<open>Module-level helpers\<close>

text \<open>
  \<^verbatim>\<open>
  MODEL_URLS = {"Xception41_deeplab": "https://.../Xception41_deeplab_pretrained.pdparams",
                "Xception65_deeplab": "https://.../Xception65_deeplab_pretrained.pdparams"}
  __all__ = list(MODEL_URLS.keys())
  \<close>
\<close>

definition MODEL_URLS :: "(string \<times> string) list" where
  "MODEL_URLS =
     [(''Xception41_deeplab'',
       ''https://paddle-imagenet-models-name.bj.bcebos.com/dygraph/Xception41_deeplab_pretrained.pdparams''),
      (''Xception65_deeplab'',
       ''https://paddle-imagenet-models-name.bj.bcebos.com/dygraph/Xception65_deeplab_pretrained.pdparams'')]"

definition all_names :: "string list" where
  "all_names = map fst MODEL_URLS"

text \<open>
  \<^verbatim>\<open>
  def check_data(data, number):
      if type(data) == int:
          return [data] * number
      assert len(data) == number
      return data
  \<close>
  \<^verbatim>\<open>type(data) == int\<close> is false for a bool; \<^verbatim>\<open>len\<close> of \<^verbatim>\<open>None\<close> or of a bool raises
  TypeError; \<^verbatim>\<open>[data] * number\<close> is empty for \<^verbatim>\<open>number <= 0\<close>.
\<close>

fun check_data :: "pyval \<Rightarrow> int \<Rightarrow> error + pyval" where
  "check_data (PyInt d) number = Inr (PyList (replicate (nat number) (PyInt d)))"
| "check_data (PyList xs) number =
     (if int (length xs) = number then Inr (PyList xs) else Inl AssertionError)"
| "check_data (PyStr cs) number =
     (if int (length cs) = number then Inr (PyStr cs) else Inl AssertionError)"
| "check_data PyNone number = Inl TypeError"
| "check_data (PyBool b) number = Inl TypeError"

text \<open>
  \<^verbatim>\<open>
  def check_stride(s, os):
      if s <= os: return True
      else: return False
  \<close>
\<close>

definition check_stride :: "int \<Rightarrow> int \<Rightarrow> bool" where
  "check_stride s os = (if s \<le> os then True else False)"

text \<open>
  \<^verbatim>\<open>gen_bottleneck_params(backbone)\<close>: a dict of three stage descriptors, each a tuple
  (block count, strides, channels), or an exception for an unknown name.
\<close>

type_synonym stage_params = "int \<times> pyval \<times> pyval"

definition gen_bottleneck_params :: "string \<Rightarrow> error + (string \<times> stage_params) list" where
  "gen_bottleneck_params backbone =
     (if backbone = ''xception_65'' then
        Inr [(''entry_flow'', (3, PyList [PyInt 2, PyInt 2, PyInt 2],
                                  PyList [PyInt 128, PyInt 256, PyInt 728])),
             (''middle_flow'', (16, PyInt 1, PyInt 728)),
             (''exit_flow'', (2, PyList [PyInt 2, PyInt 1],
                                 PyList [PyList [PyInt 728, PyInt 1024, PyInt 1024],
                                         PyList [PyInt 1536, PyInt 1536, PyInt 2048]]))]
      else if backbone = ''xception_41'' then
        Inr [(''entry_flow'', (3, PyList [PyInt 2, PyInt 2, PyInt 2],
                                  PyList [PyInt 128, PyInt 256, PyInt 728])),
             (''middle_flow'', (8, PyInt 1, PyInt 728)),
             (''exit_flow'', (2, PyList [PyInt 2, PyInt 1],
                                 PyList [PyList [PyInt 728, PyInt 1024, PyInt 1024],
                                         PyList [PyInt 1536, PyInt 1536, PyInt 2048]]))]
      else if backbone = ''xception_71'' then
        Inr [(''entry_flow'', (5, PyList [PyInt 2, PyInt 1, PyInt 2, PyInt 1, PyInt 2],
                                  PyList [PyInt 128, PyInt 256, PyInt 256, PyInt 728, PyInt 728])),
             (''middle_flow'', (16, PyInt 1, PyInt 728)),
             (''exit_flow'', (2, PyList [PyInt 2, PyInt 1],
                                 PyList [PyList [PyInt 728, PyInt 1024, PyInt 1024],
                                         PyList [PyInt 1536, PyInt 1536, PyInt 2048]]))]
      else
        Inl (Exception ''xception backbont only support xception_41/xception_65/xception_71''))"

section \<open>Layers\<close>

text \<open>
  The layers of the framework (\<^verbatim>\<open>Conv2D\<close>, \<^verbatim>\<open>BatchNorm\<close>, \<^verbatim>\<open>Linear\<close>) are not part of this
  module. A layer is the record of the integer arguments it was constructed with; the
  constant arguments (\<^verbatim>\<open>bias_attr=False\<close>, \<^verbatim>\<open>epsilon=1e-3\<close>, \<^verbatim>\<open>momentum=0.99\<close>, dropout
  \<^verbatim>\<open>p=0.5\<close>) are not recorded, and the parameter names, all of the form
  \<^verbatim>\<open>name + "/..."\<close>, are recorded as the \<open>name\<close> they are built from.
\<close>

record Conv2D =
  in_channels :: int
  out_channels :: int
  kernel_size :: int
  conv_stride :: int
  padding :: int
  dilation :: int
  groups :: int

record BatchNorm =
  num_channels :: int
  act :: "string option"

record Linear =
  in_features :: int
  out_features :: int

record ConvBNLayer =
  cb_name :: string
  cb_conv :: Conv2D
  cb_bn :: BatchNorm

record Seperate_Conv =
  sc_name :: string
  sc_conv1 :: Conv2D
  sc_bn1 :: BatchNorm
  sc_conv2 :: Conv2D
  sc_bn2 :: BatchNorm

record Xception_Block =
  xb_name :: string
  has_skip :: bool
  skip_conv :: bool
  activation_fn_in_separable_conv :: bool
  xb_conv1 :: Seperate_Conv
  xb_conv2 :: Seperate_Conv
  xb_conv3 :: Seperate_Conv
  xb_short :: "ConvBNLayer option"

text \<open>
  \<^verbatim>\<open>name + "/weights"\<close> with \<^verbatim>\<open>name=None\<close> (the default of every layer class here) raises
  TypeError.
\<close>

definition str_add :: "string option \<Rightarrow> string \<Rightarrow> error + string" where
  "str_add name suffix = (case name of None \<Rightarrow> Inl TypeError | Some n \<Rightarrow> Inr (n @ suffix))"

text \<open>\<^verbatim>\<open>ConvBNLayer(input_channels, output_channels, filter_size, stride, padding, act, name)\<close>\<close>

definition ConvBNLayer ::
  "int \<Rightarrow> int \<Rightarrow> int \<Rightarrow> int \<Rightarrow> int \<Rightarrow> string option \<Rightarrow> string option \<Rightarrow> error + ConvBNLayer" where
  "ConvBNLayer input_channels output_channels filter_size stride pad actn name =
     bind (str_add name []) (\<lambda>n.
     Inr \<lparr>cb_name = n,
          cb_conv = \<lparr>in_channels = input_channels, out_channels = output_channels,
                     kernel_size = filter_size, conv_stride = stride, padding = pad,
                     dilation = 1, groups = 1\<rparr>,
          cb_bn = \<lparr>num_channels = output_channels, act = actn\<rparr>\<rparr>)"

text \<open>
  \<^verbatim>\<open>Seperate_Conv(input_channels, output_channels, stride, filter, dilation, act, name)\<close>:
  a depthwise convolution with \<^verbatim>\<open>padding=(filter) // 2 * dilation\<close> and
  \<^verbatim>\<open>groups=input_channels\<close>, then a 1x1 pointwise convolution, each with its BatchNorm.
\<close>

definition Seperate_Conv ::
  "int \<Rightarrow> int \<Rightarrow> int \<Rightarrow> int \<Rightarrow> int \<Rightarrow> string option \<Rightarrow> string option \<Rightarrow> error + Seperate_Conv" where
  "Seperate_Conv input_channels output_channels stride filter' dil actn name =
     bind (str_add name []) (\<lambda>n.
     Inr \<lparr>sc_name = n,
          sc_conv1 = \<lparr>in_channels = input_channels, out_channels = input_channels,
                      kernel_size = filter', conv_stride = stride,
                      padding = filter' div 2 * dil, dilation = dil,
                      groups = input_channels\<rparr>,
          sc_bn1 = \<lparr>num_channels = input_channels, act = actn\<rparr>,
          sc_conv2 = \<lparr>in_channels = input_channels, out_channels = output_channels,
                      kernel_size = 1, conv_stride = 1, padding = 0, dilation = 1,
                      groups = 1\<rparr>,
          sc_bn2 = \<lparr>num_channels = output_channels, act = actn\<rparr>\<rparr>)"

text \<open>
  \<^verbatim>\<open>Xception_Block(input_channels, output_channels, strides=1, filter_size=3, dilation=1,
  skip_conv=True, has_skip=True, activation_fn_in_separable_conv=False, name=None)\<close>.
  The three \<^verbatim>\<open>check_data\<close> calls come first, in the order of the source; the two branches
  on \<^verbatim>\<open>activation_fn_in_separable_conv\<close> differ in \<^verbatim>\<open>act="relu"\<close> only; \<^verbatim>\<open>self._short\<close>
  exists only when \<^verbatim>\<open>has_skip and skip_conv\<close>.
\<close>

definition Xception_Block ::
  "int \<Rightarrow> pyval \<Rightarrow> pyval \<Rightarrow> pyval \<Rightarrow> int \<Rightarrow> bool \<Rightarrow> bool \<Rightarrow> bool \<Rightarrow> string option
     \<Rightarrow> error + Xception_Block" where
  "Xception_Block input_channels output_channels0 strides0 filter_size0 dil
       skip_conv' has_skip' activation_fn_in_separable_conv' name =
     (let repeat_number = 3 in
      bind (check_data output_channels0 repeat_number) (\<lambda>output_channels.
      bind (check_data filter_size0 repeat_number) (\<lambda>filter_size.
      bind (check_data strides0 repeat_number) (\<lambda>strides.
      bind (item_int output_channels 0) (\<lambda>oc0.
      bind (item_int output_channels 1) (\<lambda>oc1.
      bind (item_int output_channels 2) (\<lambda>oc2.
      bind (item_int strides 0) (\<lambda>st0.
      bind (item_int strides 1) (\<lambda>st1.
      bind (item_int strides 2) (\<lambda>st2.
      bind (item_int filter_size 0) (\<lambda>fs0.
      bind (item_int filter_size 1) (\<lambda>fs1.
      bind (item_int filter_size 2) (\<lambda>fs2.
      bind (str_add name ''/separable_conv1'') (\<lambda>n1.
      bind (str_add name ''/separable_conv2'') (\<lambda>n2.
      bind (str_add name ''/separable_conv3'') (\<lambda>n3.
      bind (if \<not> activation_fn_in_separable_conv' then
              bind (Seperate_Conv input_channels oc0 st0 fs0 dil None (Some n1)) (\<lambda>c1.
              bind (Seperate_Conv oc0 oc1 st1 fs1 dil None (Some n2)) (\<lambda>c2.
              bind (Seperate_Conv oc1 oc2 st2 fs2 dil None (Some n3)) (\<lambda>c3.
              Inr (c1, c2, c3))))
            else
              bind (Seperate_Conv input_channels oc0 st0 fs0 dil (Some ''relu'') (Some n1)) (\<lambda>c1.
              bind (Seperate_Conv oc0 oc1 st1 fs1 dil (Some ''relu'') (Some n2)) (\<lambda>c2.
              bind (Seperate_Conv oc1 oc2 st2 fs2 dil (Some ''relu'') (Some n3)) (\<lambda>c3.
              Inr (c1, c2, c3))))) (\<lambda>(c1, c2, c3).
      bind (if has_skip' \<and> skip_conv' then
              bind (item_int output_channels (- 1)) (\<lambda>oc_last.
              bind (item_int strides (- 1)) (\<lambda>st_last.
              bind (str_add name ''/shortcut'') (\<lambda>ns.
              bind (ConvBNLayer input_channels oc_last 1 st_last 0 None (Some ns)) (\<lambda>l.
              Inr (Some l)))))
            else Inr None) (\<lambda>short.
      bind (str_add name []) (\<lambda>n.
      Inr \<lparr>xb_name = n, has_skip = has_skip', skip_conv = skip_conv',
           activation_fn_in_separable_conv = activation_fn_in_separable_conv',
           xb_conv1 = c1, xb_conv2 = c2, xb_conv3 = c3,
           xb_short = short\<rparr>)))))))))))))))))))"

text \<open>The strides the three separable convolutions of a block were built with.\<close>

definition block_strides :: "Xception_Block \<Rightarrow> int list" where
  "block_strides b =
     [conv_stride (sc_conv1 (xb_conv1 b)), conv_stride (sc_conv1 (xb_conv2 b)),
      conv_stride (sc_conv1 (xb_conv3 b))]"

text \<open>The output channels of the three separable convolutions of a block.\<close>

definition block_channels :: "Xception_Block \<Rightarrow> int list" where
  "block_channels b =
     [out_channels (sc_conv2 (xb_conv1 b)), out_channels (sc_conv2 (xb_conv2 b)),
      out_channels (sc_conv2 (xb_conv3 b))]"

text \<open>The dilations of the three depthwise convolutions of a block.\<close>

definition block_dilations :: "Xception_Block \<Rightarrow> int list" where
  "block_dilations b =
     [dilation (sc_conv1 (xb_conv1 b)), dilation (sc_conv1 (xb_conv2 b)),
      dilation (sc_conv1 (xb_conv3 b))]"

section \<open>The topology builder\<close>

text \<open>
  \<^verbatim>\<open>for i in range(n): body\<close> over a state that the body updates; an exception in the body
  ends the loop.
\<close>

definition py_range :: "int \<Rightarrow> int list" where
  "py_range n = map int [0..<nat n]"

fun for_range :: "(int \<Rightarrow> 'st \<Rightarrow> error + 'st) \<Rightarrow> int list \<Rightarrow> 'st \<Rightarrow> error + 'st" where
  "for_range body [] st = Inr st"
| "for_range body (i # rest) st = bind (body i st) (for_range body rest)"

text \<open>
  The state of the two loops of \<^verbatim>\<open>XceptionDeeplab.__init__\<close>: the local \<^verbatim>\<open>s\<close>, the list of
  blocks appended so far, and a log with one entry for each statement \<^verbatim>\<open>s = s * stride\<close>
  executed so far: the value of \<^verbatim>\<open>s\<close> before it, the stride \<^verbatim>\<open>self.strides[i]\<close> of the
  table, and the value of \<^verbatim>\<open>s\<close> after it. The source keeps no such log; nothing in the
  model reads it.
\<close>

type_synonym s_update = "int \<times> int \<times> int"

type_synonym loop_state = "int \<times> Xception_Block list \<times> s_update list"

text \<open>
  The body of the entry-flow loop (lines 308 to 318). The block is given
  \<^verbatim>\<open>strides=[1, 1, self.stride]\<close>, the attribute, which is 2 during the whole loop; the
  local \<^verbatim>\<open>stride\<close> only goes into \<^verbatim>\<open>s\<close>.
\<close>

definition entry_flow_body ::
  "string \<Rightarrow> int \<Rightarrow> int \<Rightarrow> pyval \<Rightarrow> pyval \<Rightarrow> int \<Rightarrow> loop_state \<Rightarrow> error + loop_state" where
  "entry_flow_body backbone' self_stride' output_stride' strides chns i =
     (\<lambda>(s, flow, log).
        bind (item_int strides i) (\<lambda>strides_i.
        let stride = (if check_stride (s * strides_i) output_stride' then strides_i else 1) in
        bind (str_add (Some backbone') (''/entry_flow/block'' @ str (i + 1))) (\<lambda>name.
        bind (if i = 0 then Inr 64 else item_int chns (i - 1)) (\<lambda>input_channels.
        bind (getitem chns i) (\<lambda>output_channels.
        bind (Xception_Block input_channels output_channels
                (PyList [PyInt 1, PyInt 1, PyInt self_stride']) (PyInt 3) 1 True True False
                (Some name)) (\<lambda>xception_block.
        Inr (s * stride, flow @ [xception_block], log @ [(s, strides_i, s * stride)])))))))"

text \<open>
  The body of the middle-flow loop (lines 329 to 340). The block is given
  \<^verbatim>\<open>strides=[1, 1, self.strides[i]]\<close>, the stride of the table.
\<close>

definition middle_flow_body ::
  "string \<Rightarrow> int \<Rightarrow> pyval \<Rightarrow> int \<Rightarrow> loop_state \<Rightarrow> error + loop_state" where
  "middle_flow_body backbone' output_stride' strides i =
     (\<lambda>(s, flow, log).
        bind (item_int strides i) (\<lambda>strides_i.
        let stride = (if check_stride (s * strides_i) output_stride' then strides_i else 1) in
        bind (str_add (Some backbone') (''/middle_flow/block'' @ str (i + 1))) (\<lambda>name.
        bind (Xception_Block 728 (PyInt 728)
                (PyList [PyInt 1, PyInt 1, PyInt strides_i]) (PyInt 3) 1 False True False
                (Some name)) (\<lambda>xception_block.
        Inr (s * stride, flow @ [xception_block], log @ [(s, strides_i, s * stride)])))))"

record XceptionDeeplab =
  backbone :: string
  xd_conv1 :: ConvBNLayer
  xd_conv2 :: ConvBNLayer
  entry_flow :: "Xception_Block list"
  middle_flow :: "Xception_Block list"
  exit_flow_1 :: Xception_Block
  exit_flow_2 :: Xception_Block
  self_block_num :: int
  self_strides :: pyval
  self_chns :: pyval
  self_stride :: int
  output_stride :: int
  fc :: Linear
  s_log :: "s_update list"

text \<open>
  \<^verbatim>\<open>XceptionDeeplab.__init__\<close> from line 275 on, statement by statement, for the table
  \<^verbatim>\<open>bottleneck_params\<close> that line 274 has returned. The fields of the result are the
  attributes of the object when \<^verbatim>\<open>__init__\<close> returns; \<open>s_log\<close> is the log of the updates
  of the local \<^verbatim>\<open>s\<close>, which starts at \<^verbatim>\<open>self.stride = 2\<close>.
\<close>

definition XceptionDeeplab_init ::
  "(string \<times> stage_params) list \<Rightarrow> string \<Rightarrow> int \<Rightarrow> error + XceptionDeeplab" where
  "XceptionDeeplab_init bottleneck_params backbone' class_dim =
     bind (str_add (Some backbone') ''/entry_flow/conv1'') (\<lambda>name1.
     bind (ConvBNLayer 3 32 3 2 1 (Some ''relu'') (Some name1)) (\<lambda>conv1.
     bind (str_add (Some backbone') ''/entry_flow/conv2'') (\<lambda>name2.
     bind (ConvBNLayer 32 64 3 1 1 (Some ''relu'') (Some name2)) (\<lambda>conv2.
     bind (dict_get bottleneck_params ''entry_flow'') (\<lambda>(block_num_e, strides_e0, chns_e0).
     bind (check_data strides_e0 block_num_e) (\<lambda>strides_e.
     bind (check_data chns_e0 block_num_e) (\<lambda>chns_e.
     let stride0 = 2; output_stride' = 32 in
     bind (for_range (entry_flow_body backbone' stride0 output_stride' strides_e chns_e)
             (py_range block_num_e) (stride0, [], [])) (\<lambda>(stride_e, entry, log_e).
     bind (dict_get bottleneck_params ''middle_flow'') (\<lambda>(block_num_m, strides_m0, chns_m0).
     bind (check_data strides_m0 block_num_m) (\<lambda>strides_m.
     bind (check_data chns_m0 block_num_m) (\<lambda>chns_m.
     bind (for_range (middle_flow_body backbone' output_stride' strides_m)
             (py_range block_num_m) (stride_e, [], log_e)) (\<lambda>(stride_m, middle, log_m).
     bind (dict_get bottleneck_params ''exit_flow'') (\<lambda>(block_num_x, strides_x0, chns_x0).
     bind (check_data strides_x0 block_num_x) (\<lambda>strides_x.
     bind (check_data chns_x0 block_num_x) (\<lambda>chns_x.
     let s1 = stride_m in
     bind (item_int strides_x 0) (\<lambda>strides_x_0.
     let stride1 = (if check_stride (s1 * strides_x_0) output_stride' then strides_x_0 else 1) in
     bind (getitem chns_x 0) (\<lambda>chns_x_0.
     bind (str_add (Some backbone') ''/exit_flow/block1'') (\<lambda>name_x1.
     bind (Xception_Block 728 chns_x_0 (PyList [PyInt 1, PyInt 1, PyInt stride1]) (PyInt 3) 1
             True True False (Some name_x1)) (\<lambda>exit1.
     let s2 = s1 * stride1 in
     bind (item_int strides_x 1) (\<lambda>strides_x_1.
     let stride2 = (if check_stride (s2 * strides_x_1) output_stride' then strides_x_1 else 1) in
     bind (bind (getitem chns_x 0) (\<lambda>c. item_int c (- 1))) (\<lambda>chns_x_0_last.
     bind (getitem chns_x 1) (\<lambda>chns_x_1.
     bind (str_add (Some backbone') ''/exit_flow/block2'') (\<lambda>name_x2.
     bind (Xception_Block chns_x_0_last chns_x_1 (PyList [PyInt 1, PyInt 1, PyInt stride2])
             (PyInt 3) 2 True False True (Some name_x2)) (\<lambda>exit2.
     let s3 = s2 * stride2 in
     bind (bind (getitem chns_x 1) (\<lambda>c. item_int c (- 1))) (\<lambda>chns_x_1_last.
     Inr \<lparr>backbone = backbone', xd_conv1 = conv1, xd_conv2 = conv2,
          entry_flow = entry, middle_flow = middle,
          exit_flow_1 = exit1, exit_flow_2 = exit2,
          self_block_num = block_num_x, self_strides = strides_x, self_chns = chns_x,
          self_stride = s3, output_stride = output_stride',
          fc = \<lparr>in_features = chns_x_1_last, out_features = class_dim\<rparr>,
          s_log = log_m @ [(s1, strides_x_0, s2), (s2, strides_x_1, s3)]\<rparr>)))))))))))))))))))))))))"

text \<open>
  \<^verbatim>\<open>XceptionDeeplab(backbone, class_dim=1000)\<close>: line 274 first, which raises for an unknown
  backbone before any layer is built.
\<close>

definition XceptionDeeplab :: "string \<Rightarrow> int \<Rightarrow> error + XceptionDeeplab" where
  "XceptionDeeplab backbone' class_dim =
     bind (gen_bottleneck_params backbone') (\<lambda>bottleneck_params.
     XceptionDeeplab_init bottleneck_params backbone' class_dim)"

section \<open>The forward pass of a block\<close>

text \<open>
  The tensor operations belong to the framework: they are parameters of the model, over
  any type \<open>'t\<close> of tensors. \<open>Conv2D_call\<close> and \<open>BatchNorm_call\<close> apply a layer built with
  the recorded arguments (a BatchNorm applies its \<open>act\<close> itself), \<open>F_relu\<close> is
  \<^verbatim>\<open>F.relu\<close>, \<open>paddle_add\<close> is \<^verbatim>\<open>paddle.add\<close>.
\<close>

record 't framework =
  Conv2D_call :: "Conv2D \<Rightarrow> 't \<Rightarrow> 't"
  BatchNorm_call :: "BatchNorm \<Rightarrow> 't \<Rightarrow> 't"
  F_relu :: "'t \<Rightarrow> 't"
  paddle_add :: "'t \<Rightarrow> 't \<Rightarrow> 't"

definition ConvBNLayer_forward :: "'t framework \<Rightarrow> ConvBNLayer \<Rightarrow> 't \<Rightarrow> 't" where
  "ConvBNLayer_forward fw l inputs =
     BatchNorm_call fw (cb_bn l) (Conv2D_call fw (cb_conv l) inputs)"

definition Seperate_Conv_forward :: "'t framework \<Rightarrow> Seperate_Conv \<Rightarrow> 't \<Rightarrow> 't" where
  "Seperate_Conv_forward fw l inputs =
     (let x = Conv2D_call fw (sc_conv1 l) inputs;
          x = BatchNorm_call fw (sc_bn1 l) x;
          x = Conv2D_call fw (sc_conv2 l) x;
          x = BatchNorm_call fw (sc_bn2 l) x
      in x)"

text \<open>
  \<^verbatim>\<open>Xception_Block.forward\<close> (lines 248 to 267). \<^verbatim>\<open>self._short\<close> is read only when
  \<^verbatim>\<open>has_skip\<close> and \<^verbatim>\<open>skip_conv\<close> hold; on an object without it that is an AttributeError.
\<close>

definition Xception_Block_forward :: "'t framework \<Rightarrow> Xception_Block \<Rightarrow> 't \<Rightarrow> error + 't" where
  "Xception_Block_forward fw b inputs =
     (let x = (if \<not> activation_fn_in_separable_conv b then
                 (let x = F_relu fw inputs;
                      x = Seperate_Conv_forward fw (xb_conv1 b) x;
                      x = F_relu fw x;
                      x = Seperate_Conv_forward fw (xb_conv2 b) x;
                      x = F_relu fw x;
                      x = Seperate_Conv_forward fw (xb_conv3 b) x
                  in x)
               else
                 (let x = Seperate_Conv_forward fw (xb_conv1 b) inputs;
                      x = Seperate_Conv_forward fw (xb_conv2 b) x;
                      x = Seperate_Conv_forward fw (xb_conv3 b) x
                  in x))
      in if has_skip b then
           bind (if skip_conv b then
                   (case xb_short b of
                      None \<Rightarrow> Inl (AttributeError ''_short'')
                    | Some short \<Rightarrow> Inr (ConvBNLayer_forward fw short inputs))
                 else Inr inputs) (\<lambda>skip.
           Inr (paddle_add fw x skip))
         else Inr x)"

section \<open>Pretrained weights and the factory functions\<close>

text \<open>
  The two loaders of \<^verbatim>\<open>ppcls.utils.save_load\<close> are not part of this module; a call of one
  of them is recorded with its arguments, in the order of the calls.
\<close>

datatype loader_call =
    load_dygraph_pretrain_from_url XceptionDeeplab string bool
  | load_dygraph_pretrain XceptionDeeplab string

text \<open>
  \<^verbatim>\<open>
  def _load_pretrained(pretrained, model, model_url, use_ssld=False):
      if pretrained is False:
          pass
      elif pretrained is True:
          load_dygraph_pretrain_from_url(model, model_url, use_ssld=use_ssld)
      elif isinstance(pretrained, str):
          load_dygraph_pretrain(model, pretrained)
      else:
          raise RuntimeError(
              "pretrained type is not available. Please use `string` or `boolean` type.")
  \<close>
  \<^verbatim>\<open>is\<close> compares identities: only the bool objects are \<^verbatim>\<open>True\<close> and \<^verbatim>\<open>False\<close>, so the
  first two tests are equalities with \<open>PyBool False\<close> and \<open>PyBool True\<close>. The result is the
  list of loader calls made and the outcome.
\<close>

definition load_pretrained ::
  "pyval \<Rightarrow> XceptionDeeplab \<Rightarrow> string \<Rightarrow> bool \<Rightarrow> loader_call list \<times> (error + unit)" where
  "load_pretrained pretrained model model_url use_ssld =
     (if pretrained = PyBool False then ([], Inr ())
      else if pretrained = PyBool True then
        ([load_dygraph_pretrain_from_url model model_url use_ssld], Inr ())
      else case pretrained of
          PyStr path \<Rightarrow> ([load_dygraph_pretrain model path], Inr ())
        | _ \<Rightarrow> ([], Inl (RuntimeError
            ''pretrained type is not available. Please use `string` or `boolean` type.'')))"

text \<open>
  A factory builds the model, looks the URL up in \<^verbatim>\<open>MODEL_URLS\<close>, calls
  \<^verbatim>\<open>_load_pretrained\<close> and returns the model; \<^verbatim>\<open>**kwargs\<close> is \<^verbatim>\<open>class_dim\<close>.
\<close>

type_synonym factory = "pyval \<Rightarrow> bool \<Rightarrow> int \<Rightarrow> loader_call list \<times> (error + XceptionDeeplab)"

definition Xception41_deeplab :: factory where
  "Xception41_deeplab pretrained use_ssld class_dim =
     (case XceptionDeeplab ''xception_41'' class_dim of
        Inl e \<Rightarrow> ([], Inl e)
      | Inr model \<Rightarrow>
          (case dict_get MODEL_URLS ''Xception41_deeplab'' of
             Inl e \<Rightarrow> ([], Inl e)
           | Inr model_url \<Rightarrow>
               (case load_pretrained pretrained model model_url use_ssld of
                  (calls, Inl e) \<Rightarrow> (calls, Inl e)
                | (calls, Inr u) \<Rightarrow> (calls, Inr model))))"

definition Xception65_deeplab :: factory where
  "Xception65_deeplab pretrained use_ssld class_dim =
     (case XceptionDeeplab ''xception_65'' class_dim of
        Inl e \<Rightarrow> ([], Inl e)
      | Inr model \<Rightarrow>
          (case dict_get MODEL_URLS ''Xception65_deeplab'' of
             Inl e \<Rightarrow> ([], Inl e)
           | Inr model_url \<Rightarrow>
               (case load_pretrained pretrained model model_url use_ssld of
                  (calls, Inl e) \<Rightarrow> (calls, Inl e)
                | (calls, Inr u) \<Rightarrow> (calls, Inr model))))"

text \<open>
  The functions that the module defines and lists in \<^verbatim>\<open>__all__\<close>, by name: the two
  \<^verbatim>\<open>def\<close> statements at lines 406 and 412.
\<close>

definition exported :: "string \<Rightarrow> factory option" where
  "exported name =
     (if name \<in> set all_names then
        map_of [(''Xception41_deeplab'', Xception41_deeplab),
                (''Xception65_deeplab'', Xception65_deeplab)] name
      else None)"

section \<open>Stride clipping as the specification words it\<close>

text \<open>
  The effective stride of each block of a stage, from the accumulator \<open>s\<close> at the start of
  the stage and the strides of the table: \<open>strides[i]\<close> if \<open>s * strides[i] \<le> output_stride\<close>,
  else 1, with \<open>s\<close> multiplied by the effective stride after each block.
\<close>

fun effective_strides :: "int \<Rightarrow> int \<Rightarrow> int list \<Rightarrow> int list" where
  "effective_strides s os [] = []"
| "effective_strides s os (st # rest) =
     (let e = (if s * st \<le> os then st else 1) in e # effective_strides (s * e) os rest)"

text \<open>
  A log of updates is in order for the bound \<open>os\<close> and the start \<open>s\<close> when each update
  starts where the one before ended, multiplies by the stride of the table or, where
  that would exceed \<open>os\<close>, by 1, and ends at most at \<open>os\<close>.
\<close>

fun log_ok :: "int \<Rightarrow> int \<Rightarrow> s_update list \<Rightarrow> bool" where
  "log_ok os s [] = True"
| "log_ok os s ((a, st, b) # rest) =
     (a = s \<and> b = s * (if s * st \<le> os then st else 1) \<and> b \<le> os \<and> log_ok os b rest)"

definition log_end :: "int \<Rightarrow> s_update list \<Rightarrow> int" where
  "log_end s log = (if log = [] then s else snd (snd (last log)))"

definition loop_inv :: "int \<Rightarrow> int \<Rightarrow> int \<Rightarrow> s_update list \<Rightarrow> bool" where
  "loop_inv os s0 s log = (log_ok os s0 log \<and> s = log_end s0 log \<and> s \<le> os)"

text \<open>\<^verbatim>\<open>gen_bottleneck_params(backbone)[stage]\<close>, the descriptor of one stage.\<close>

definition stage_of :: "string \<Rightarrow> string \<Rightarrow> error + stage_params" where
  "stage_of backbone' stage = bind (gen_bottleneck_params backbone') (\<lambda>bp. dict_get bp stage)"

text \<open>The filter sizes of the three depthwise convolutions of a block.\<close>

definition block_filter_sizes :: "Xception_Block \<Rightarrow> int list" where
  "block_filter_sizes b =
     [kernel_size (sc_conv1 (xb_conv1 b)), kernel_size (sc_conv1 (xb_conv2 b)),
      kernel_size (sc_conv1 (xb_conv3 b))]"

text \<open>The activations of the two BatchNorm layers of each separable convolution of a block.\<close>

definition block_acts :: "Xception_Block \<Rightarrow> string option list" where
  "block_acts b =
     concat (map (\<lambda>c. [act (sc_bn1 c), act (sc_bn2 c)]) [xb_conv1 b, xb_conv2 b, xb_conv3 b])"

text \<open>
  The backbone of the model that the exported function of a name builds, called with
  \<^verbatim>\<open>pretrained=False\<close> and the default \<^verbatim>\<open>class_dim\<close>; \<open>None\<close> when the module exports no
  function of that name.
\<close>

definition factory_backbone :: "string \<Rightarrow> (error + string) option" where
  "factory_backbone name =
     map_option (\<lambda>f. map_sum id backbone (snd (f (PyBool False) False 1000))) (exported name)"

section \<open>Basic lemmas\<close>

lemma bind_simps [simp]: "bind (Inl e) f = Inl e" "bind (Inr x) f = f x"
  by (simp_all add: bind_def)

lemma bind_eq_Inr: "bind m f = Inr y \<longleftrightarrow> (\<exists>x. m = Inr x \<and> f x = Inr y)"
  by (cases m) simp_all

lemma bind_InrE:
  assumes "bind m f = Inr y"
  obtains x where "m = Inr x" and "f x = Inr y"
  using assms by (auto simp: bind_eq_Inr)

lemmas eval_defs =
  XceptionDeeplab_def XceptionDeeplab_init_def gen_bottleneck_params_def dict_get_def
  str_add_def ConvBNLayer_def Seperate_Conv_def Xception_Block_def entry_flow_body_def
  middle_flow_body_def item_int_def list_getitem_def check_stride_def py_range_def str_def
  str_nat.simps digit_char_def block_strides_def block_channels_def block_dilations_def
  stage_of_def Let_def upt_rec

section \<open>The three supported backbones, evaluated\<close>

lemma build_xception_65:
  "\<exists>m. XceptionDeeplab ''xception_65'' cd = Inr m
     \<and> backbone m = ''xception_65''
     \<and> map block_strides (entry_flow m) = [[1, 1, 2], [1, 1, 2], [1, 1, 2]]
     \<and> length (middle_flow m) = 16
     \<and> list_all (\<lambda>b. block_strides b = [1, 1, 1]) (middle_flow m)
     \<and> block_strides (exit_flow_1 m) = [1, 1, 2]
     \<and> block_strides (exit_flow_2 m) = [1, 1, 1]
     \<and> block_dilations (exit_flow_2 m) = [2, 2, 2]
     \<and> block_channels (exit_flow_2 m) = [1536, 1536, 2048]
     \<and> \<not> has_skip (exit_flow_2 m)
     \<and> activation_fn_in_separable_conv (exit_flow_2 m)
     \<and> self_block_num m = 2
     \<and> self_stride m = 32
     \<and> fc m = \<lparr>in_features = 2048, out_features = cd\<rparr>"
  by (simp add: eval_defs)

lemma build_xception_41:
  "\<exists>m. XceptionDeeplab ''xception_41'' cd = Inr m
     \<and> backbone m = ''xception_41''
     \<and> map block_strides (entry_flow m) = [[1, 1, 2], [1, 1, 2], [1, 1, 2]]
     \<and> length (middle_flow m) = 8
     \<and> list_all (\<lambda>b. block_strides b = [1, 1, 1]) (middle_flow m)
     \<and> block_strides (exit_flow_1 m) = [1, 1, 2]
     \<and> block_strides (exit_flow_2 m) = [1, 1, 1]
     \<and> block_dilations (exit_flow_2 m) = [2, 2, 2]
     \<and> block_channels (exit_flow_2 m) = [1536, 1536, 2048]
     \<and> \<not> has_skip (exit_flow_2 m)
     \<and> activation_fn_in_separable_conv (exit_flow_2 m)
     \<and> self_block_num m = 2
     \<and> self_stride m = 32
     \<and> fc m = \<lparr>in_features = 2048, out_features = cd\<rparr>"
  by (simp add: eval_defs)

lemma build_xception_71:
  "\<exists>m. XceptionDeeplab ''xception_71'' cd = Inr m
     \<and> backbone m = ''xception_71''
     \<and> map block_strides (entry_flow m) =
         [[1, 1, 2], [1, 1, 2], [1, 1, 2], [1, 1, 2], [1, 1, 2]]
     \<and> length (middle_flow m) = 16
     \<and> list_all (\<lambda>b. block_strides b = [1, 1, 1]) (middle_flow m)
     \<and> block_strides (exit_flow_1 m) = [1, 1, 2]
     \<and> block_strides (exit_flow_2 m) = [1, 1, 1]
     \<and> block_dilations (exit_flow_2 m) = [2, 2, 2]
     \<and> block_channels (exit_flow_2 m) = [1536, 1536, 2048]
     \<and> \<not> has_skip (exit_flow_2 m)
     \<and> activation_fn_in_separable_conv (exit_flow_2 m)
     \<and> self_block_num m = 2
     \<and> self_stride m = 32
     \<and> fc m = \<lparr>in_features = 2048, out_features = cd\<rparr>"
  by (simp add: eval_defs)

lemma exit_flow_table:
  "bb \<in> {''xception_41'', ''xception_65'', ''xception_71''} \<Longrightarrow>
   stage_of bb ''exit_flow'' =
     Inr (2, PyList [PyInt 2, PyInt 1],
          PyList [PyList [PyInt 728, PyInt 1024, PyInt 1024],
                  PyList [PyInt 1536, PyInt 1536, PyInt 2048]])"
  by (auto simp: stage_of_def gen_bottleneck_params_def dict_get_def)

section \<open>The stride accumulator\<close>

lemma log_ok_append:
  "log_ok os s (xs @ ys) = (log_ok os s xs \<and> log_ok os (log_end s xs) ys)"
  by (induction xs arbitrary: s) (auto simp: log_end_def)

lemma loop_inv_step:
  assumes "loop_inv os s0 s log"
  shows "loop_inv os s0 (s * (if check_stride (s * st) os then st else 1))
           (log @ [(s, st, s * (if check_stride (s * st) os then st else 1))])"
  using assms by (auto simp: loop_inv_def log_ok_append log_end_def check_stride_def)

lemma entry_flow_body_inv:
  assumes "entry_flow_body bb ss os strides chns i (s, flow, log) = Inr (s', flow', log')"
    and "loop_inv os s0 s log"
  shows "loop_inv os s0 s' log'"
proof -
  from assms(1) obtain st where
    "s' = s * (if check_stride (s * st) os then st else 1)"
    "log' = log @ [(s, st, s')]"
    by (auto simp: entry_flow_body_def Let_def bind_eq_Inr)
  with loop_inv_step [OF assms(2), of st] show ?thesis by simp
qed

lemma middle_flow_body_inv:
  assumes "middle_flow_body bb os strides i (s, flow, log) = Inr (s', flow', log')"
    and "loop_inv os s0 s log"
  shows "loop_inv os s0 s' log'"
proof -
  from assms(1) obtain st where
    "s' = s * (if check_stride (s * st) os then st else 1)"
    "log' = log @ [(s, st, s')]"
    by (auto simp: middle_flow_body_def Let_def bind_eq_Inr)
  with loop_inv_step [OF assms(2), of st] show ?thesis by simp
qed

lemma for_range_inv:
  assumes step: "\<And>i s flow log s' flow' log'.
      body i (s, flow, log) = Inr (s', flow', log') \<Longrightarrow> P s log \<Longrightarrow> P s' log'"
  shows "for_range body idx (s, flow, log) = Inr (s', flow', log') \<Longrightarrow> P s log \<Longrightarrow> P s' log'"
proof (induction idx arbitrary: s flow log)
  case Nil
  then show ?case by simp
next
  case (Cons i rest)
  from Cons.prems(1) obtain st1 where b: "body i (s, flow, log) = Inr st1"
    and r: "for_range body rest st1 = Inr (s', flow', log')"
    by (auto simp: bind_eq_Inr)
  obtain s1 flow1 log1 where st1: "st1 = (s1, flow1, log1)" by (cases st1)
  from step [OF b [unfolded st1] Cons.prems(2)] have "P s1 log1" .
  from Cons.IH [OF r [unfolded st1] this] show ?case .
qed

lemma init_inv:
  assumes "XceptionDeeplab_init bp bb cd = Inr m"
  shows "loop_inv 32 2 (self_stride m) (s_log m)"
proof -
  from assms obtain se fe le sm fm lm strides_e chns_e ne strides_m nm st0 st1 where
    e: "for_range (entry_flow_body bb 2 32 strides_e chns_e) (py_range ne) (2, [], []) = Inr (se, fe, le)"
    and mi: "for_range (middle_flow_body bb 32 strides_m) (py_range nm) (se, [], le) = Inr (sm, fm, lm)"
    and lg: "s_log m = lm @ [(sm, st0, sm * (if check_stride (sm * st0) 32 then st0 else 1)),
        (sm * (if check_stride (sm * st0) 32 then st0 else 1), st1, self_stride m)]"
    and fin: "self_stride m = (sm * (if check_stride (sm * st0) 32 then st0 else 1)) *
        (if check_stride ((sm * (if check_stride (sm * st0) 32 then st0 else 1)) * st1) 32 then st1 else 1)"
    unfolding XceptionDeeplab_init_def Let_def
    apply (elim bind_InrE)
    apply (simp only: split_paired_all prod.case)
    apply (elim bind_InrE)
    apply (simp only: split_paired_all prod.case)
    apply (elim bind_InrE)
    apply (simp only: split_paired_all prod.case)
    apply (elim bind_InrE)
    apply (simp only: split_paired_all prod.case)
    apply (elim bind_InrE)
    apply (simp only: split_paired_all prod.case)
    apply (elim bind_InrE)
    apply auto
    done
  have i0: "loop_inv 32 2 2 []" by (simp add: loop_inv_def log_end_def)
  have i1: "loop_inv 32 2 se le"
    by (rule for_range_inv [where P = "loop_inv 32 2", OF entry_flow_body_inv e i0])
  have i2: "loop_inv 32 2 sm lm"
    by (rule for_range_inv [where P = "loop_inv 32 2", OF middle_flow_body_inv mi i1])
  from loop_inv_step [OF loop_inv_step [OF i2, of st0], of st1] show ?thesis
    by (simp add: lg fin)
qed

lemma log_ok_bounded: "log_ok os s log \<Longrightarrow> (a, st, b) \<in> set log \<Longrightarrow> s \<le> os \<Longrightarrow>
    a \<le> os \<and> b \<le> os \<and> b = (if a * st \<le> os then a * st else a)"
  by (induction log arbitrary: s) auto

text \<open>
  Claim C2. Each of the three supported backbones is constructed without an exception,
  and the accumulator \<open>s\<close> starts at 2, is multiplied at each block by the stride of the
  table or, where the product would exceed 32, by 1, and never exceeds 32: the log of its
  updates is in order, and the construction ends with \<open>self.stride = 32\<close>. The same holds
  for every table the rest of \<^verbatim>\<open>__init__\<close> could be given: whenever it returns, every
  update \<open>(a, st, b)\<close> of \<open>s\<close> has \<open>a \<le> 32\<close>, \<open>b \<le> 32\<close>, and \<open>b = a\<close> where \<open>a * st\<close> exceeds 32.
\<close>

theorem accumulated_stride_bounded:
  "(\<exists>m. XceptionDeeplab ''xception_41'' cd = Inr m \<and> log_ok 32 2 (s_log m) \<and> self_stride m = 32)
   \<and> (\<exists>m. XceptionDeeplab ''xception_65'' cd = Inr m \<and> log_ok 32 2 (s_log m) \<and> self_stride m = 32)
   \<and> (\<exists>m. XceptionDeeplab ''xception_71'' cd = Inr m \<and> log_ok 32 2 (s_log m) \<and> self_stride m = 32)
   \<and> (\<forall>bp bb m. XceptionDeeplab_init bp bb cd = Inr m \<longrightarrow>
         log_ok 32 2 (s_log m) \<and> self_stride m = log_end 2 (s_log m) \<and> self_stride m \<le> 32 \<and>
         (\<forall>(a, st, b) \<in> set (s_log m).
             a \<le> 32 \<and> b \<le> 32 \<and> b = a * (if a * st \<le> 32 then st else 1) \<and>
             (32 < a * st \<longrightarrow> b = a)))"
proof -
  have gen: "log_ok 32 2 (s_log m) \<and> self_stride m = log_end 2 (s_log m) \<and> self_stride m \<le> 32 \<and>
         (\<forall>(a, st, b) \<in> set (s_log m).
             a \<le> 32 \<and> b \<le> 32 \<and> b = a * (if a * st \<le> 32 then st else 1) \<and>
             (32 < a * st \<longrightarrow> b = a))"
    if init: "XceptionDeeplab_init bp bb cd = Inr m" for bp bb m
  proof -
    from init_inv [OF init] have inv: "loop_inv 32 2 (self_stride m) (s_log m)" .
    then have ok: "log_ok 32 2 (s_log m)" by (simp add: loop_inv_def)
    have "a \<le> 32 \<and> b \<le> 32 \<and> b = a * (if a * st \<le> 32 then st else 1) \<and> (32 < a * st \<longrightarrow> b = a)"
      if "(a, st, b) \<in> set (s_log m)" for a st b
      using log_ok_bounded [OF ok that] by auto
    with inv show ?thesis by (auto simp: loop_inv_def)
  qed
  have built: "log_ok 32 2 (s_log m)" if "XceptionDeeplab bb cd = Inr m" for bb m
  proof -
    from that obtain bp where "XceptionDeeplab_init bp bb cd = Inr m"
      by (auto simp: XceptionDeeplab_def bind_eq_Inr)
    with gen show ?thesis by blast
  qed
  from build_xception_41 [of cd] built
  have "\<exists>m. XceptionDeeplab ''xception_41'' cd = Inr m \<and> log_ok 32 2 (s_log m) \<and> self_stride m = 32"
    by blast
  moreover from build_xception_65 [of cd] built
  have "\<exists>m. XceptionDeeplab ''xception_65'' cd = Inr m \<and> log_ok 32 2 (s_log m) \<and> self_stride m = 32"
    by blast
  moreover from build_xception_71 [of cd] built
  have "\<exists>m. XceptionDeeplab ''xception_71'' cd = Inr m \<and> log_ok 32 2 (s_log m) \<and> self_stride m = 32"
    by blast
  ultimately show ?thesis using gen by blast
qed

text \<open>
  A table whose first exit-flow stride is 32: the product 4 * 32 exceeds 32, the stride
  is replaced by 1 and \<open>s\<close> stays 4.
\<close>

lemma clipping_table_built:
  "\<exists>m. XceptionDeeplab_init
          [(''entry_flow'', (1, PyList [PyInt 2], PyList [PyInt 128])),
           (''middle_flow'', (1, PyInt 1, PyInt 728)),
           (''exit_flow'', (2, PyList [PyInt 32, PyInt 2],
              PyList [PyList [PyInt 728, PyInt 1024, PyInt 1024],
                      PyList [PyInt 1536, PyInt 1536, PyInt 2048]]))]
          ''t'' 1000 = Inr m
     \<and> s_log m = [(2, 2, 4), (4, 1, 4), (4, 32, 4), (4, 2, 8)]
     \<and> self_stride m = 8"
  by (simp add: eval_defs)

theorem accumulated_stride_bounded_witness:
  "\<exists>m. XceptionDeeplab_init
          [(''entry_flow'', (1, PyList [PyInt 2], PyList [PyInt 128])),
           (''middle_flow'', (1, PyInt 1, PyInt 728)),
           (''exit_flow'', (2, PyList [PyInt 32, PyInt 2],
              PyList [PyList [PyInt 728, PyInt 1024, PyInt 1024],
                      PyList [PyInt 1536, PyInt 1536, PyInt 2048]]))]
          ''t'' 1000 = Inr m
     \<and> (4, 32, 4) \<in> set (s_log m) \<and> (32::int) < 4 * 32
     \<and> log_ok 32 2 (s_log m) \<and> self_stride m \<le> 32"
  using accumulated_stride_bounded [of 1000] clipping_table_built by fastforce

section \<open>Block counts and the table\<close>

lemma for_range_length:
  assumes step: "\<And>i s flow log s' flow' log'.
      body i (s, flow, log) = Inr (s', flow', log') \<Longrightarrow> length flow' = Suc (length flow)"
  shows "for_range body idx (s, flow, log) = Inr (s', flow', log') \<Longrightarrow>
           length flow' = length flow + length idx"
proof (induction idx arbitrary: s flow log)
  case Nil
  then show ?case by simp
next
  case (Cons i rest)
  from Cons.prems obtain s1 flow1 log1 where
    b: "body i (s, flow, log) = Inr (s1, flow1, log1)"
    and r: "for_range body rest (s1, flow1, log1) = Inr (s', flow', log')"
    by (auto simp: bind_eq_Inr)
  from step [OF b] Cons.IH [OF r] show ?case by simp
qed

lemma entry_flow_body_length:
  "entry_flow_body bb ss os strides chns i (s, flow, log) = Inr (s', flow', log') \<Longrightarrow>
     length flow' = Suc (length flow)"
  by (auto simp: entry_flow_body_def Let_def bind_eq_Inr)

lemma middle_flow_body_length:
  "middle_flow_body bb os strides i (s, flow, log) = Inr (s', flow', log') \<Longrightarrow>
     length flow' = Suc (length flow)"
  by (auto simp: middle_flow_body_def Let_def bind_eq_Inr)

lemma init_block_counts:
  assumes "XceptionDeeplab_init bp bb cd = Inr m"
  shows "\<exists>ne se ce nm sm cm sx cx.
           dict_get bp ''entry_flow'' = Inr (ne, se, ce) \<and> length (entry_flow m) = nat ne \<and>
           dict_get bp ''middle_flow'' = Inr (nm, sm, cm) \<and> length (middle_flow m) = nat nm \<and>
           dict_get bp ''exit_flow'' = Inr (self_block_num m, sx, cx)"
proof -
  from assms obtain ne se ce nm sm cm sx cx strides_e chns_e strides_m s1 l1 s2 l2 where
    de: "dict_get bp ''entry_flow'' = Inr (ne, se, ce)"
    and dm: "dict_get bp ''middle_flow'' = Inr (nm, sm, cm)"
    and dx: "dict_get bp ''exit_flow'' = Inr (self_block_num m, sx, cx)"
    and e: "for_range (entry_flow_body bb 2 32 strides_e chns_e) (py_range ne) (2, [], [])
              = Inr (s1, entry_flow m, l1)"
    and mi: "for_range (middle_flow_body bb 32 strides_m) (py_range nm) (s1, [], l1)
              = Inr (s2, middle_flow m, l2)"
    unfolding XceptionDeeplab_init_def Let_def
    apply (elim bind_InrE)
    apply (simp only: split_paired_all prod.case)
    apply (elim bind_InrE)
    apply (simp only: split_paired_all prod.case)
    apply (elim bind_InrE)
    apply (simp only: split_paired_all prod.case)
    apply (elim bind_InrE)
    apply (simp only: split_paired_all prod.case)
    apply (elim bind_InrE)
    apply (simp only: split_paired_all prod.case)
    apply (elim bind_InrE)
    apply auto
    done
  from for_range_length [OF entry_flow_body_length e]
  have "length (entry_flow m) = nat ne" by (simp add: py_range_def)
  moreover from for_range_length [OF middle_flow_body_length mi]
  have "length (middle_flow m) = nat nm" by (simp add: py_range_def)
  ultimately show ?thesis using de dm dx by blast
qed

text \<open>
  Claim C3. For \<^verbatim>\<open>xception_65\<close> and \<^verbatim>\<open>xception_41\<close> the constructed model has 3 entry-flow
  blocks, 16 and 8 middle-flow blocks, and the 2 exit-flow blocks \<open>exit_flow_1\<close> and
  \<open>exit_flow_2\<close> (the block count 2 of the table is what \<^verbatim>\<open>self.block_num\<close> holds at the
  end); the counts are those of the table of \<^verbatim>\<open>gen_bottleneck_params\<close>: for every table
  the numbers of entry-flow and middle-flow blocks built are the block counts of its
  descriptors.
\<close>

theorem flow_block_counts:
  "(\<exists>m. XceptionDeeplab ''xception_65'' cd = Inr m \<and> length (entry_flow m) = 3 \<and>
         length (middle_flow m) = 16 \<and> self_block_num m = 2)
   \<and> (\<exists>m. XceptionDeeplab ''xception_41'' cd = Inr m \<and> length (entry_flow m) = 3 \<and>
         length (middle_flow m) = 8 \<and> self_block_num m = 2)
   \<and> map (\<lambda>stage. map_sum id fst (stage_of ''xception_65'' stage))
         [''entry_flow'', ''middle_flow'', ''exit_flow''] = [Inr 3, Inr 16, Inr 2]
   \<and> map (\<lambda>stage. map_sum id fst (stage_of ''xception_41'' stage))
         [''entry_flow'', ''middle_flow'', ''exit_flow''] = [Inr 3, Inr 8, Inr 2]
   \<and> (\<forall>bb m. XceptionDeeplab bb cd = Inr m \<longrightarrow>
         map_sum id fst (stage_of bb ''entry_flow'') = Inr (int (length (entry_flow m))) \<and>
         map_sum id fst (stage_of bb ''middle_flow'') = Inr (int (length (middle_flow m))) \<and>
         map_sum id fst (stage_of bb ''exit_flow'') = Inr (self_block_num m))"
proof -
  have a: "\<exists>m. XceptionDeeplab ''xception_65'' cd = Inr m \<and> length (entry_flow m) = 3 \<and>
         length (middle_flow m) = 16 \<and> self_block_num m = 2"
  proof -
    from build_xception_65 [of cd] obtain m where
      m: "XceptionDeeplab ''xception_65'' cd = Inr m"
      "map block_strides (entry_flow m) = [[1, 1, 2], [1, 1, 2], [1, 1, 2]]"
      "length (middle_flow m) = 16" "self_block_num m = 2"
      by (elim exE conjE) (rule that)
    from arg_cong [OF m(2), of length] have "length (entry_flow m) = 3" by simp
    with m(1,3,4) show ?thesis by simp
  qed
  have b: "\<exists>m. XceptionDeeplab ''xception_41'' cd = Inr m \<and> length (entry_flow m) = 3 \<and>
         length (middle_flow m) = 8 \<and> self_block_num m = 2"
  proof -
    from build_xception_41 [of cd] obtain m where
      m: "XceptionDeeplab ''xception_41'' cd = Inr m"
      "map block_strides (entry_flow m) = [[1, 1, 2], [1, 1, 2], [1, 1, 2]]"
      "length (middle_flow m) = 8" "self_block_num m = 2"
      by (elim exE conjE) (rule that)
    from arg_cong [OF m(2), of length] have "length (entry_flow m) = 3" by simp
    with m(1,3,4) show ?thesis by simp
  qed
  have c: "map (\<lambda>stage. map_sum id fst (stage_of ''xception_65'' stage))
         [''entry_flow'', ''middle_flow'', ''exit_flow''] = [Inr 3, Inr 16, Inr 2]"
    by (simp add: stage_of_def gen_bottleneck_params_def dict_get_def)
  have d: "map (\<lambda>stage. map_sum id fst (stage_of ''xception_41'' stage))
         [''entry_flow'', ''middle_flow'', ''exit_flow''] = [Inr 3, Inr 8, Inr 2]"
    by (simp add: stage_of_def gen_bottleneck_params_def dict_get_def)
  have e: "map_sum id fst (stage_of bb ''entry_flow'') = Inr (int (length (entry_flow m))) \<and>
         map_sum id fst (stage_of bb ''middle_flow'') = Inr (int (length (middle_flow m))) \<and>
         map_sum id fst (stage_of bb ''exit_flow'') = Inr (self_block_num m)"
    if "XceptionDeeplab bb cd = Inr m" for bb m
  proof -
    from that obtain bp where bp: "gen_bottleneck_params bb = Inr bp"
      and init: "XceptionDeeplab_init bp bb cd = Inr m"
      by (auto simp: XceptionDeeplab_def bind_eq_Inr)
    from init_block_counts [OF init] obtain ne se ce nm sm cm sx cx where
      t: "dict_get bp ''entry_flow'' = Inr (ne, se, ce)" "length (entry_flow m) = nat ne"
         "dict_get bp ''middle_flow'' = Inr (nm, sm, cm)" "length (middle_flow m) = nat nm"
         "dict_get bp ''exit_flow'' = Inr (self_block_num m, sx, cx)"
      by blast
    from bp t(1) have "0 \<le> ne"
      by (auto simp: gen_bottleneck_params_def dict_get_def split: if_splits)
    moreover from bp t(3) have "0 \<le> nm"
      by (auto simp: gen_bottleneck_params_def dict_get_def split: if_splits)
    ultimately show ?thesis using bp t by (simp add: stage_of_def)
  qed
  from a b c d e show ?thesis by blast
qed

theorem flow_block_counts_witness:
  "\<exists>m. XceptionDeeplab ''xception_71'' 1000 = Inr m \<and>
     map_sum id fst (stage_of ''xception_71'' ''entry_flow'') = Inr 5 \<and>
     length (entry_flow m) = 5 \<and> length (middle_flow m) = 16 \<and> self_block_num m = 2"
proof -
  from build_xception_71 [of 1000] obtain m where
    m: "XceptionDeeplab ''xception_71'' 1000 = Inr m" by (elim exE conjE) (rule that)
  have "map_sum id fst (stage_of ''xception_71'' ''entry_flow'') = Inr 5"
       "map_sum id fst (stage_of ''xception_71'' ''middle_flow'') = Inr 16"
       "map_sum id fst (stage_of ''xception_71'' ''exit_flow'') = Inr 2"
    by (simp_all add: stage_of_def gen_bottleneck_params_def dict_get_def)
  with flow_block_counts [of 1000] m show ?thesis by fastforce
qed

section \<open>The entry flow of xception_71\<close>

lemma map_all_const: "list_all (\<lambda>b. f b = c) xs \<Longrightarrow> map f xs = replicate (length xs) c"
  by (induction xs) simp_all

text \<open>
  Claim C1, evaluated at \<^verbatim>\<open>xception_71\<close>. The effective strides of the entry flow are
  2, 1, 2, 1, 2, and they are what the accumulator is multiplied by; the five entry-flow
  blocks are nevertheless all built with the strides \<open>[1, 1, 2]\<close>, since line 315 passes
  the attribute \<^verbatim>\<open>self.stride\<close> (2 during the loop) and not the local \<^verbatim>\<open>stride\<close>. The
  middle-flow and exit-flow blocks are built with their effective strides.
\<close>

theorem xception_71_entry_flow_strides:
  "\<exists>m. XceptionDeeplab ''xception_71'' cd = Inr m
     \<and> effective_strides 2 32 [2, 1, 2, 1, 2] = [2, 1, 2, 1, 2]
     \<and> map block_strides (entry_flow m) =
         [[1, 1, 2], [1, 1, 2], [1, 1, 2], [1, 1, 2], [1, 1, 2]]
     \<and> map block_strides (entry_flow m) \<noteq>
         map (\<lambda>e. [1, 1, e]) (effective_strides 2 32 [2, 1, 2, 1, 2])
     \<and> map block_strides (middle_flow m) =
         map (\<lambda>e. [1, 1, e]) (effective_strides 16 32 (replicate 16 1))
     \<and> [block_strides (exit_flow_1 m), block_strides (exit_flow_2 m)] =
         map (\<lambda>e. [1, 1, e]) (effective_strides 16 32 [2, 1])"
proof -
  from build_xception_71 [of cd] obtain m where
    m: "XceptionDeeplab ''xception_71'' cd = Inr m"
    "map block_strides (entry_flow m) =
         [[1, 1, 2], [1, 1, 2], [1, 1, 2], [1, 1, 2], [1, 1, 2]]"
    "length (middle_flow m) = 16"
    "list_all (\<lambda>b. block_strides b = [1, 1, 1]) (middle_flow m)"
    "block_strides (exit_flow_1 m) = [1, 1, 2]"
    "block_strides (exit_flow_2 m) = [1, 1, 1]"
    by (elim exE conjE) (rule that)
  have r: "effective_strides 16 32 (replicate n 1) = replicate n 1" for n
    by (induction n) simp_all
  from map_all_const [OF m(4)] m(3)
  have "map block_strides (middle_flow m) = replicate 16 [1, 1, 1]" by simp
  with m(1,2,5,6) r [of 16] show ?thesis by (simp add: Let_def)
qed

section \<open>Exit-flow block 2 and the classifier\<close>

text \<open>
  Claim C7. For each supported backbone, exit-flow block 2 is built with
  \<open>has_skip = False\<close>, dilation 2 in its three depthwise convolutions and the activation
  inside the separable convolutions; its internal strides are \<open>[1, 1, 1]\<close>; its last
  output channel count is 2048, which is \<^verbatim>\<open>chns[1][-1]\<close> of the table and the
  \<open>in_features\<close> of the Linear layer, whose \<open>out_features\<close> is \<open>class_dim\<close>.
\<close>

theorem exit_flow_2_and_classifier:
  assumes "bb \<in> {''xception_41'', ''xception_65'', ''xception_71''}"
  shows "\<exists>m. XceptionDeeplab bb cd = Inr m
           \<and> \<not> has_skip (exit_flow_2 m)
           \<and> activation_fn_in_separable_conv (exit_flow_2 m)
           \<and> block_dilations (exit_flow_2 m) = [2, 2, 2]
           \<and> block_strides (exit_flow_2 m) = [1, 1, 1]
           \<and> last (block_channels (exit_flow_2 m)) = 2048
           \<and> bind (stage_of bb ''exit_flow'')
                (\<lambda>(n, strides, chns). bind (getitem chns 1) (\<lambda>c. item_int c (- 1))) = Inr 2048
           \<and> in_features (fc m) = 2048
           \<and> out_features (fc m) = cd"
proof -
  have t: "bind (stage_of bb ''exit_flow'')
             (\<lambda>(n, strides, chns). bind (getitem chns 1) (\<lambda>c. item_int c (- 1))) = Inr 2048"
    by (simp add: exit_flow_table [OF assms] item_int_def list_getitem_def)
  from assms consider "bb = ''xception_41''" | "bb = ''xception_65''" | "bb = ''xception_71''"
    by blast
  then show ?thesis
  proof cases
    case 1
    with build_xception_41 [of cd] t show ?thesis by auto
  next
    case 2
    with build_xception_65 [of cd] t show ?thesis by auto
  next
    case 3
    with build_xception_71 [of cd] t show ?thesis by auto
  qed
qed

theorem exit_flow_2_and_classifier_witness:
  "''xception_65'' \<in> {''xception_41'', ''xception_65'', ''xception_71''} \<and>
   (\<exists>m. XceptionDeeplab ''xception_65'' 1000 = Inr m
      \<and> \<not> has_skip (exit_flow_2 m)
      \<and> block_dilations (exit_flow_2 m) = [2, 2, 2]
      \<and> block_strides (exit_flow_2 m) = [1, 1, 1]
      \<and> last (block_channels (exit_flow_2 m)) = 2048
      \<and> fc m = \<lparr>in_features = 2048, out_features = 1000\<rparr>)"
proof -
  have h: "''xception_65'' \<in> {''xception_41'', ''xception_65'', ''xception_71''}" by simp
  from exit_flow_2_and_classifier [OF h, of 1000] h show ?thesis by auto
qed

section \<open>Unsupported backbones\<close>

text \<open>
  Claim C9. For a backbone name other than \<^verbatim>\<open>xception_41\<close>, \<^verbatim>\<open>xception_65\<close> and
  \<^verbatim>\<open>xception_71\<close>, \<^verbatim>\<open>gen_bottleneck_params\<close> raises, and the constructor of
  \<^verbatim>\<open>XceptionDeeplab\<close>, whose first statement calls it, raises the same exception and
  returns no model; so do the two factory functions' constructor calls for such a name.
\<close>

theorem unsupported_backbone_raises:
  assumes "bb \<notin> {''xception_41'', ''xception_65'', ''xception_71''}"
  shows "gen_bottleneck_params bb =
           Inl (Exception ''xception backbont only support xception_41/xception_65/xception_71'')
         \<and> XceptionDeeplab bb cd =
           Inl (Exception ''xception backbont only support xception_41/xception_65/xception_71'')"
  using assms by (simp add: XceptionDeeplab_def gen_bottleneck_params_def)

theorem unsupported_backbone_raises_witness:
  "''xception_101'' \<notin> {''xception_41'', ''xception_65'', ''xception_71''}
   \<and> XceptionDeeplab ''xception_101'' 1000 =
       Inl (Exception ''xception backbont only support xception_41/xception_65/xception_71'')"
proof -
  have h: "''xception_101'' \<notin> {''xception_41'', ''xception_65'', ''xception_71''}" by simp
  from unsupported_backbone_raises [OF h, of 1000] h show ?thesis by simp
qed

section \<open>Normalisation of the block parameters\<close>

lemma check_data_3_wrong_length:
  "length xs \<noteq> 3 \<Longrightarrow> check_data (PyList xs) 3 = Inl AssertionError"
  by auto

text \<open>
  Claim C5. \<^verbatim>\<open>check_data\<close> with count 3 broadcasts an int \<open>v\<close> to \<open>[v, v, v]\<close>, returns a list
  of length 3 unchanged and fails on a list of another length; the constructor of
  \<^verbatim>\<open>Xception_Block\<close> applies it to \<^verbatim>\<open>output_channels\<close>, \<^verbatim>\<open>filter_size\<close> and \<^verbatim>\<open>strides\<close>, in
  this order, before it builds any layer: a list of the wrong length in one of them
  (the ones checked before it being accepted) makes the constructor fail with the
  assertion error and return no block, and scalars and lists of three ints reach the
  three separable convolutions as the claim says.
\<close>

theorem Xception_Block_check_data:
  "check_data (PyInt v) 3 = Inr (PyList [PyInt v, PyInt v, PyInt v])
   \<and> (length xs = 3 \<longrightarrow> check_data (PyList xs) 3 = Inr (PyList xs))
   \<and> (length xs \<noteq> 3 \<longrightarrow> check_data (PyList xs) 3 = Inl AssertionError)
   \<and> (length xs \<noteq> 3 \<longrightarrow>
         Xception_Block ic (PyList xs) st fs dil sk hs a_in name = Inl AssertionError)
   \<and> (length xs \<noteq> 3 \<longrightarrow> check_data oc 3 \<noteq> Inl TypeError \<longrightarrow>
         check_data oc 3 \<noteq> Inl AssertionError \<longrightarrow>
         Xception_Block ic oc st (PyList xs) dil sk hs a_in name = Inl AssertionError)
   \<and> (length xs \<noteq> 3 \<longrightarrow> check_data oc 3 \<noteq> Inl TypeError \<longrightarrow>
         check_data oc 3 \<noteq> Inl AssertionError \<longrightarrow>
         check_data fs 3 \<noteq> Inl TypeError \<longrightarrow> check_data fs 3 \<noteq> Inl AssertionError \<longrightarrow>
         Xception_Block ic oc (PyList xs) fs dil sk hs a_in name = Inl AssertionError)
   \<and> (\<exists>b. Xception_Block ic (PyInt v) (PyInt s) (PyInt f) dil sk hs a_in (Some n) = Inr b
          \<and> block_channels b = [v, v, v] \<and> block_strides b = [s, s, s]
          \<and> block_filter_sizes b = [f, f, f])
   \<and> (\<exists>b. Xception_Block ic (PyList [PyInt c1, PyInt c2, PyInt c3])
             (PyList [PyInt s1, PyInt s2, PyInt s3]) (PyList [PyInt f1, PyInt f2, PyInt f3])
             dil sk hs a_in (Some n) = Inr b
          \<and> block_channels b = [c1, c2, c3] \<and> block_strides b = [s1, s2, s3]
          \<and> block_filter_sizes b = [f1, f2, f3])"
proof -
  have chk: "check_data d 3 = Inl e \<Longrightarrow> e = TypeError \<or> e = AssertionError" for d e
    by (cases d) (auto split: if_splits)
  have ok: "\<exists>d'. check_data d 3 = Inr d'"
    if "check_data d 3 \<noteq> Inl TypeError" "check_data d 3 \<noteq> Inl AssertionError" for d
    using that chk [of d] by (cases "check_data d 3") auto
  have a: "check_data (PyInt v) 3 = Inr (PyList [PyInt v, PyInt v, PyInt v])"
    by (simp add: numeral_3_eq_3)
  have b: "Xception_Block ic (PyList xs) st fs dil sk hs a_in name = Inl AssertionError"
    if "length xs \<noteq> 3"
    using that by (simp add: Xception_Block_def)
  have c: "Xception_Block ic oc st (PyList xs) dil sk hs a_in name = Inl AssertionError"
    if "length xs \<noteq> 3" "check_data oc 3 \<noteq> Inl TypeError" "check_data oc 3 \<noteq> Inl AssertionError"
  proof -
    from ok [OF that(2,3)] obtain oc' where "check_data oc 3 = Inr oc'" ..
    with that(1) show ?thesis by (simp add: Xception_Block_def)
  qed
  have d: "Xception_Block ic oc (PyList xs) fs dil sk hs a_in name = Inl AssertionError"
    if "length xs \<noteq> 3" "check_data oc 3 \<noteq> Inl TypeError" "check_data oc 3 \<noteq> Inl AssertionError"
       "check_data fs 3 \<noteq> Inl TypeError" "check_data fs 3 \<noteq> Inl AssertionError"
  proof -
    from ok [OF that(2,3)] obtain oc' where "check_data oc 3 = Inr oc'" ..
    moreover from ok [OF that(4,5)] obtain fs' where "check_data fs 3 = Inr fs'" ..
    ultimately show ?thesis using that(1) by (simp add: Xception_Block_def)
  qed
  have e: "\<exists>b. Xception_Block ic (PyInt v) (PyInt s) (PyInt f) dil sk hs a_in (Some n) = Inr b
          \<and> block_channels b = [v, v, v] \<and> block_strides b = [s, s, s]
          \<and> block_filter_sizes b = [f, f, f]"
    by (simp add: Xception_Block_def numeral_3_eq_3 item_int_def list_getitem_def str_add_def
        Seperate_Conv_def ConvBNLayer_def block_channels_def block_strides_def
        block_filter_sizes_def)
  have f: "\<exists>b. Xception_Block ic (PyList [PyInt c1, PyInt c2, PyInt c3])
             (PyList [PyInt s1, PyInt s2, PyInt s3]) (PyList [PyInt f1, PyInt f2, PyInt f3])
             dil sk hs a_in (Some n) = Inr b
          \<and> block_channels b = [c1, c2, c3] \<and> block_strides b = [s1, s2, s3]
          \<and> block_filter_sizes b = [f1, f2, f3]"
    by (simp add: Xception_Block_def item_int_def list_getitem_def str_add_def
        Seperate_Conv_def ConvBNLayer_def block_channels_def block_strides_def
        block_filter_sizes_def)
  from a b c d e f show ?thesis by simp
qed

theorem Xception_Block_check_data_witness:
  "length [PyInt 1, PyInt 2, PyInt 3, PyInt 4] \<noteq> 3
   \<and> check_data (PyInt 728) 3 \<noteq> Inl TypeError \<and> check_data (PyInt 728) 3 \<noteq> Inl AssertionError
   \<and> check_data (PyInt 3) 3 \<noteq> Inl TypeError \<and> check_data (PyInt 3) 3 \<noteq> Inl AssertionError
   \<and> check_data (PyList [PyInt 1, PyInt 2, PyInt 3, PyInt 4]) 3 = Inl AssertionError
   \<and> Xception_Block 64 (PyList [PyInt 1, PyInt 2, PyInt 3, PyInt 4]) (PyInt 1) (PyInt 3) 1
        True True False (Some ''b'') = Inl AssertionError
   \<and> Xception_Block 64 (PyInt 728) (PyInt 1) (PyList [PyInt 1, PyInt 2, PyInt 3, PyInt 4]) 1
        True True False (Some ''b'') = Inl AssertionError
   \<and> Xception_Block 64 (PyInt 728) (PyList [PyInt 1, PyInt 2, PyInt 3, PyInt 4]) (PyInt 3) 1
        True True False (Some ''b'') = Inl AssertionError
   \<and> length [PyInt 1, PyInt 1, PyInt 2] = 3
   \<and> check_data (PyList [PyInt 1, PyInt 1, PyInt 2]) 3 = Inr (PyList [PyInt 1, PyInt 1, PyInt 2])"
proof -
  have h: "length [PyInt 1, PyInt 2, PyInt 3, PyInt 4] \<noteq> 3" by simp
  have k: "check_data (PyInt 728) 3 \<noteq> Inl TypeError" "check_data (PyInt 728) 3 \<noteq> Inl AssertionError"
    "check_data (PyInt 3) 3 \<noteq> Inl TypeError" "check_data (PyInt 3) 3 \<noteq> Inl AssertionError"
    by simp_all
  have l: "length [PyInt 1, PyInt 1, PyInt 2] = 3" by simp
  from Xception_Block_check_data
    [where xs = "[PyInt 1, PyInt 2, PyInt 3, PyInt 4]" and ic = 64 and st = "PyInt 1"
       and fs = "PyInt 3" and dil = 1 and sk = True and hs = True and a_in = False
       and name = "Some ''b''" and oc = "PyInt 728"]
    Xception_Block_check_data [where xs = "[PyInt 1, PyInt 1, PyInt 2]"]
    h k l
  show ?thesis by simp
qed

section \<open>The forward pass of a block\<close>

lemma Xception_Block_built:
  assumes "Xception_Block ic oc st fs dil sk hs a_in name = Inr b"
  shows "has_skip b = hs" "skip_conv b = sk" "activation_fn_in_separable_conv b = a_in"
    "hs \<and> sk \<Longrightarrow> \<exists>l. xb_short b = Some l \<and> in_channels (cb_conv l) = ic \<and>
        kernel_size (cb_conv l) = 1 \<and> act (cb_bn l) = None \<and>
        conv_stride (cb_conv l) = last (block_strides b) \<and>
        out_channels (cb_conv l) = last (block_channels b)"
    "\<not> a_in \<Longrightarrow> block_acts b = [None, None, None, None, None, None]"
    "a_in \<Longrightarrow> block_acts b =
       [Some ''relu'', Some ''relu'', Some ''relu'', Some ''relu'', Some ''relu'', Some ''relu'']"
proof -
  from assms obtain ocs sts fss where
    c: "check_data oc 3 = Inr ocs" "check_data st 3 = Inr sts" "check_data fs 3 = Inr fss"
    by (auto simp: Xception_Block_def Let_def bind_eq_Inr)
  have three: "\<exists>x y z. getitem v 0 = Inr x \<and> getitem v 1 = Inr y \<and> getitem v 2 = Inr z \<and>
      getitem v (- 1) = Inr z" if "check_data d 3 = Inr v" for d v
  proof (cases d)
    case (PyInt i)
    with that show ?thesis by (auto simp: numeral_3_eq_3 list_getitem_def)
  next
    case (PyList xs)
    with that have "length xs = 3" "v = PyList xs" by (auto split: if_splits)
    then show ?thesis
      by (cases xs; cases "tl xs"; cases "tl (tl xs)") (auto simp: list_getitem_def)
  next
    case (PyStr cs)
    with that have "length cs = 3" "v = PyStr cs" by (auto split: if_splits)
    then show ?thesis
      by (cases cs; cases "tl cs"; cases "tl (tl cs)") (auto simp: list_getitem_def)
  qed (use that in auto)
  from three [OF c(1)] obtain o0 o1 o2 where
    o: "getitem ocs 0 = Inr o0" "getitem ocs 1 = Inr o1" "getitem ocs 2 = Inr o2"
       "getitem ocs (- 1) = Inr o2" by blast
  from three [OF c(2)] obtain t0 t1 t2 where
    t: "getitem sts 0 = Inr t0" "getitem sts 1 = Inr t1" "getitem sts 2 = Inr t2"
       "getitem sts (- 1) = Inr t2" by blast
  note defs = Xception_Block_def Let_def bind_eq_Inr item_int_def str_add_def
    Seperate_Conv_def ConvBNLayer_def block_strides_def block_channels_def block_acts_def
  from assms c o t show "has_skip b = hs" "skip_conv b = sk"
    "activation_fn_in_separable_conv b = a_in"
    by (auto simp: defs split: if_splits option.splits)
  from assms c o t show "\<exists>l. xb_short b = Some l \<and> in_channels (cb_conv l) = ic \<and>
        kernel_size (cb_conv l) = 1 \<and> act (cb_bn l) = None \<and>
        conv_stride (cb_conv l) = last (block_strides b) \<and>
        out_channels (cb_conv l) = last (block_channels b)" if "hs \<and> sk"
    using that by (auto simp: defs split: if_splits option.splits)
  from assms c o t show "block_acts b = [None, None, None, None, None, None]" if "\<not> a_in"
    using that by (auto simp: defs split: if_splits option.splits)
  from assms c o t show "block_acts b =
       [Some ''relu'', Some ''relu'', Some ''relu'', Some ''relu'', Some ''relu'', Some ''relu'']"
    if "a_in"
    using that by (auto simp: defs split: if_splits option.splits)
qed


text \<open>
  Claim C6. For a block that the constructor has returned, the forward pass is one of two
  chains: with \<^verbatim>\<open>activation_fn_in_separable_conv=False\<close> a ReLU before each of the three
  separable convolutions, whose BatchNorm layers then have no activation, and otherwise
  the three separable convolutions alone, whose BatchNorm layers apply the ReLU. With
  \<^verbatim>\<open>has_skip\<close> the result is \<^verbatim>\<open>paddle.add\<close> of this main path and of the skip path: the
  1x1 \<^verbatim>\<open>ConvBNLayer\<close> built from the input channels, the last output channel count and
  the last stride, applied to the input, when \<^verbatim>\<open>skip_conv\<close>, and the input itself
  otherwise. Without \<^verbatim>\<open>has_skip\<close> the result is the main path.
\<close>

theorem Xception_Block_forward_modes:
  assumes "Xception_Block ic oc st fs dil sk hs a_in name = Inr b"
  shows "(\<not> a_in \<longrightarrow> block_acts b = [None, None, None, None, None, None])
     \<and> (a_in \<longrightarrow> block_acts b = [Some ''relu'', Some ''relu'', Some ''relu'',
                                  Some ''relu'', Some ''relu'', Some ''relu''])
     \<and> (hs \<and> sk \<longrightarrow> (\<exists>l. xb_short b = Some l \<and> in_channels (cb_conv l) = ic \<and>
           kernel_size (cb_conv l) = 1 \<and>
           conv_stride (cb_conv l) = last (block_strides b) \<and>
           out_channels (cb_conv l) = last (block_channels b)))
     \<and> (\<exists>short. (hs \<and> sk \<longrightarrow> xb_short b = Some short) \<and>
          Xception_Block_forward fw b x =
            Inr (let main =
                   (if \<not> a_in then
                      Seperate_Conv_forward fw (xb_conv3 b) (F_relu fw
                        (Seperate_Conv_forward fw (xb_conv2 b) (F_relu fw
                          (Seperate_Conv_forward fw (xb_conv1 b) (F_relu fw x)))))
                    else
                      Seperate_Conv_forward fw (xb_conv3 b)
                        (Seperate_Conv_forward fw (xb_conv2 b)
                          (Seperate_Conv_forward fw (xb_conv1 b) x)))
                 in if hs then
                      (if sk then paddle_add fw main (ConvBNLayer_forward fw short x)
                       else paddle_add fw main x)
                    else main))"
proof -
  note built = Xception_Block_built [OF assms]
  have fwd: "\<exists>short. (hs \<and> sk \<longrightarrow> xb_short b = Some short) \<and>
          Xception_Block_forward fw b x =
            Inr (let main =
                   (if \<not> a_in then
                      Seperate_Conv_forward fw (xb_conv3 b) (F_relu fw
                        (Seperate_Conv_forward fw (xb_conv2 b) (F_relu fw
                          (Seperate_Conv_forward fw (xb_conv1 b) (F_relu fw x)))))
                    else
                      Seperate_Conv_forward fw (xb_conv3 b)
                        (Seperate_Conv_forward fw (xb_conv2 b)
                          (Seperate_Conv_forward fw (xb_conv1 b) x)))
                 in if hs then
                      (if sk then paddle_add fw main (ConvBNLayer_forward fw short x)
                       else paddle_add fw main x)
                    else main)"
  proof (cases "hs \<and> sk")
    case True
    with built(4) obtain l where "xb_short b = Some l" by blast
    with True built(1-3) show ?thesis
      by (intro exI [of _ l]) (simp add: Xception_Block_forward_def Let_def)
  next
    case False
    with built(1-3) show ?thesis
      by (auto simp: Xception_Block_forward_def Let_def)
  qed
  from built(4-6) fwd show ?thesis by blast
qed

text \<open>A framework over the integers, to run a block on.\<close>

theorem Xception_Block_forward_modes_witness:
  "\<exists>b. Xception_Block 64 (PyInt 128) (PyList [PyInt 1, PyInt 1, PyInt 2]) (PyInt 3) 1
          True True False (Some ''b'') = Inr b
      \<and> block_acts b = [None, None, None, None, None, None]
      \<and> Xception_Block_forward
          \<lparr>Conv2D_call = (\<lambda>c t. t * conv_stride c + out_channels c),
           BatchNorm_call = (\<lambda>n t. t + num_channels n),
           F_relu = (\<lambda>t. max 0 t), paddle_add = (\<lambda>t u. t + u)\<rparr> b (- 5) = Inr 2550"
proof -
  have e: "\<exists>b. Xception_Block 64 (PyInt 128) (PyList [PyInt 1, PyInt 1, PyInt 2]) (PyInt 3) 1
          True True False (Some ''b'') = Inr b"
    by (simp add: Xception_Block_def numeral_3_eq_3 item_int_def list_getitem_def str_add_def
        Seperate_Conv_def ConvBNLayer_def)
  then obtain b where b: "Xception_Block 64 (PyInt 128) (PyList [PyInt 1, PyInt 1, PyInt 2])
      (PyInt 3) 1 True True False (Some ''b'') = Inr b" ..
  let ?fw = "\<lparr>Conv2D_call = (\<lambda>c t. t * conv_stride c + out_channels c),
           BatchNorm_call = (\<lambda>n t. t + num_channels n),
           F_relu = (\<lambda>t. max 0 t), paddle_add = (\<lambda>t u. t + (u::int))\<rparr>"
  from Xception_Block_forward_modes [OF b, of ?fw "- 5"] obtain short where
    s: "block_acts b = [None, None, None, None, None, None]"
       "xb_short b = Some short"
       "Xception_Block_forward ?fw b (- 5) =
          Inr (paddle_add ?fw
                (Seperate_Conv_forward ?fw (xb_conv3 b) (F_relu ?fw
                  (Seperate_Conv_forward ?fw (xb_conv2 b) (F_relu ?fw
                    (Seperate_Conv_forward ?fw (xb_conv1 b) (F_relu ?fw (- 5)))))))
                (ConvBNLayer_forward ?fw short (- 5)))"
    by (auto simp: Let_def)
  from b s(2) have "Seperate_Conv_forward ?fw (xb_conv3 b) (F_relu ?fw
                  (Seperate_Conv_forward ?fw (xb_conv2 b) (F_relu ?fw
                    (Seperate_Conv_forward ?fw (xb_conv1 b) (F_relu ?fw (- 5)))))) = 2304
      \<and> ConvBNLayer_forward ?fw short (- 5) = 246"
    by (auto simp: Xception_Block_def numeral_3_eq_3 item_int_def list_getitem_def str_add_def
        Seperate_Conv_def ConvBNLayer_def Seperate_Conv_forward_def ConvBNLayer_forward_def
        Let_def)
  with b s show ?thesis by auto
qed


section \<open>Pretrained weights\<close>

lemma load_pretrained_cases:
  "load_pretrained (PyBool False) model url ssld = ([], Inr ())"
  "load_pretrained (PyBool True) model url ssld =
     ([load_dygraph_pretrain_from_url model url ssld], Inr ())"
  "load_pretrained (PyStr path) model url ssld = ([load_dygraph_pretrain model path], Inr ())"
  "load_pretrained PyNone model url ssld = ([], Inl (RuntimeError
     ''pretrained type is not available. Please use `string` or `boolean` type.''))"
  "load_pretrained (PyInt i) model url ssld = ([], Inl (RuntimeError
     ''pretrained type is not available. Please use `string` or `boolean` type.''))"
  "load_pretrained (PyList xs) model url ssld = ([], Inl (RuntimeError
     ''pretrained type is not available. Please use `string` or `boolean` type.''))"
  by (simp_all add: load_pretrained_def)

lemma Xception41_deeplab_built:
  "\<exists>m. XceptionDeeplab ''xception_41'' cd = Inr m \<and> backbone m = ''xception_41'' \<and>
     (\<forall>p ssld. Xception41_deeplab p ssld cd =
        (case load_pretrained p m
           ''https://paddle-imagenet-models-name.bj.bcebos.com/dygraph/Xception41_deeplab_pretrained.pdparams''
           ssld of
           (calls, Inl e) \<Rightarrow> (calls, Inl e) | (calls, Inr u) \<Rightarrow> (calls, Inr m)))"
proof -
  from build_xception_41 [of cd] obtain m where
    m: "XceptionDeeplab ''xception_41'' cd = Inr m" "backbone m = ''xception_41''"
    by (elim exE conjE) (rule that)
  then show ?thesis
    by (simp add: Xception41_deeplab_def dict_get_def MODEL_URLS_def)
qed

lemma Xception65_deeplab_built:
  "\<exists>m. XceptionDeeplab ''xception_65'' cd = Inr m \<and> backbone m = ''xception_65'' \<and>
     (\<forall>p ssld. Xception65_deeplab p ssld cd =
        (case load_pretrained p m
           ''https://paddle-imagenet-models-name.bj.bcebos.com/dygraph/Xception65_deeplab_pretrained.pdparams''
           ssld of
           (calls, Inl e) \<Rightarrow> (calls, Inl e) | (calls, Inr u) \<Rightarrow> (calls, Inr m)))"
proof -
  from build_xception_65 [of cd] obtain m where
    m: "XceptionDeeplab ''xception_65'' cd = Inr m" "backbone m = ''xception_65''"
    by (elim exE conjE) (rule that)
  then show ?thesis
    by (simp add: Xception65_deeplab_def dict_get_def MODEL_URLS_def)
qed

text \<open>
  Claim C4. \<^verbatim>\<open>_load_pretrained\<close> calls no loader for \<^verbatim>\<open>False\<close>, the URL loader once, with
  the model, the URL and \<^verbatim>\<open>use_ssld\<close>, for \<^verbatim>\<open>True\<close>, the path loader once, with the model
  and the string, for a string, and raises the RuntimeError with no loader call for
  every other value (\<^verbatim>\<open>None\<close>, an int, a list). Each factory function builds its model and
  makes exactly these calls, with the URL that \<^verbatim>\<open>MODEL_URLS\<close> registers for it.
\<close>

theorem load_pretrained_dispatch:
  "load_pretrained (PyBool False) model url ssld = ([], Inr ())
   \<and> load_pretrained (PyBool True) model url ssld =
       ([load_dygraph_pretrain_from_url model url ssld], Inr ())
   \<and> load_pretrained (PyStr path) model url ssld = ([load_dygraph_pretrain model path], Inr ())
   \<and> load_pretrained PyNone model url ssld = ([], Inl (RuntimeError
       ''pretrained type is not available. Please use `string` or `boolean` type.''))
   \<and> load_pretrained (PyInt i) model url ssld = ([], Inl (RuntimeError
       ''pretrained type is not available. Please use `string` or `boolean` type.''))
   \<and> load_pretrained (PyList xs) model url ssld = ([], Inl (RuntimeError
       ''pretrained type is not available. Please use `string` or `boolean` type.''))
   \<and> (\<exists>m. XceptionDeeplab ''xception_41'' cd = Inr m
        \<and> Xception41_deeplab (PyBool False) ssld cd = ([], Inr m)
        \<and> Xception41_deeplab (PyBool True) ssld cd =
            ([load_dygraph_pretrain_from_url m
               ''https://paddle-imagenet-models-name.bj.bcebos.com/dygraph/Xception41_deeplab_pretrained.pdparams''
               ssld], Inr m)
        \<and> Xception41_deeplab (PyStr path) ssld cd = ([load_dygraph_pretrain m path], Inr m)
        \<and> Xception41_deeplab (PyInt i) ssld cd = ([], Inl (RuntimeError
            ''pretrained type is not available. Please use `string` or `boolean` type.'')))
   \<and> (\<exists>m. XceptionDeeplab ''xception_65'' cd = Inr m
        \<and> Xception65_deeplab (PyBool False) ssld cd = ([], Inr m)
        \<and> Xception65_deeplab (PyBool True) ssld cd =
            ([load_dygraph_pretrain_from_url m
               ''https://paddle-imagenet-models-name.bj.bcebos.com/dygraph/Xception65_deeplab_pretrained.pdparams''
               ssld], Inr m)
        \<and> Xception65_deeplab (PyStr path) ssld cd = ([load_dygraph_pretrain m path], Inr m)
        \<and> Xception65_deeplab (PyInt i) ssld cd = ([], Inl (RuntimeError
            ''pretrained type is not available. Please use `string` or `boolean` type.'')))"
proof -
  from Xception41_deeplab_built [of cd] obtain m41 where
    a: "XceptionDeeplab ''xception_41'' cd = Inr m41"
       "\<And>p ssld. Xception41_deeplab p ssld cd =
        (case load_pretrained p m41
           ''https://paddle-imagenet-models-name.bj.bcebos.com/dygraph/Xception41_deeplab_pretrained.pdparams''
           ssld of
           (calls, Inl e) \<Rightarrow> (calls, Inl e) | (calls, Inr u) \<Rightarrow> (calls, Inr m41))"
    by blast
  from Xception65_deeplab_built [of cd] obtain m65 where
    b: "XceptionDeeplab ''xception_65'' cd = Inr m65"
       "\<And>p ssld. Xception65_deeplab p ssld cd =
        (case load_pretrained p m65
           ''https://paddle-imagenet-models-name.bj.bcebos.com/dygraph/Xception65_deeplab_pretrained.pdparams''
           ssld of
           (calls, Inl e) \<Rightarrow> (calls, Inl e) | (calls, Inr u) \<Rightarrow> (calls, Inr m65))"
    by blast
  show ?thesis
    by (simp add: a b load_pretrained_cases)
qed

text \<open>
  Claim C10. The first two tests of \<^verbatim>\<open>_load_pretrained\<close> are identity tests, so a value that
  is neither a bool nor a string raises the RuntimeError and no loader is called, in
  \<^verbatim>\<open>_load_pretrained\<close> and in both factory functions. The ints 0 and 1 are such values,
  although as numbers they are the values of \<^verbatim>\<open>False\<close> and \<^verbatim>\<open>True\<close>.
\<close>

theorem load_pretrained_other_values:
  assumes "\<forall>b. v \<noteq> PyBool b" and "\<forall>path. v \<noteq> PyStr path"
  shows "load_pretrained v model url ssld = ([], Inl (RuntimeError
           ''pretrained type is not available. Please use `string` or `boolean` type.''))
     \<and> Xception41_deeplab v ssld cd = ([], Inl (RuntimeError
           ''pretrained type is not available. Please use `string` or `boolean` type.''))
     \<and> Xception65_deeplab v ssld cd = ([], Inl (RuntimeError
           ''pretrained type is not available. Please use `string` or `boolean` type.''))
     \<and> as_int (PyInt 0) = as_int (PyBool False) \<and> as_int (PyInt 1) = as_int (PyBool True)
     \<and> load_pretrained (PyInt 0) model url ssld = ([], Inl (RuntimeError
           ''pretrained type is not available. Please use `string` or `boolean` type.''))
     \<and> load_pretrained (PyInt 1) model url ssld = ([], Inl (RuntimeError
           ''pretrained type is not available. Please use `string` or `boolean` type.''))"
proof -
  have v: "load_pretrained v m u ssld = ([], Inl (RuntimeError
           ''pretrained type is not available. Please use `string` or `boolean` type.''))" for m u
    using assms by (cases v) (auto simp: load_pretrained_def)
  from Xception41_deeplab_built [of cd] v
  have "Xception41_deeplab v ssld cd = ([], Inl (RuntimeError
           ''pretrained type is not available. Please use `string` or `boolean` type.''))"
    by auto
  moreover from Xception65_deeplab_built [of cd] v
  have "Xception65_deeplab v ssld cd = ([], Inl (RuntimeError
           ''pretrained type is not available. Please use `string` or `boolean` type.''))"
    by auto
  ultimately show ?thesis using v by (simp add: load_pretrained_cases)
qed

theorem load_pretrained_other_values_witness:
  "(\<forall>b. PyInt 1 \<noteq> PyBool b) \<and> (\<forall>path. PyInt 1 \<noteq> PyStr path)
   \<and> Xception41_deeplab (PyInt 1) False 1000 = ([], Inl (RuntimeError
        ''pretrained type is not available. Please use `string` or `boolean` type.''))
   \<and> Xception65_deeplab (PyInt 1) False 1000 = ([], Inl (RuntimeError
        ''pretrained type is not available. Please use `string` or `boolean` type.''))"
proof -
  have h: "\<forall>b. PyInt 1 \<noteq> PyBool b" "\<forall>path. PyInt 1 \<noteq> PyStr path" by simp_all
  from load_pretrained_other_values [OF h, where ssld = False and cd = 1000] h
  show ?thesis by simp
qed

section \<open>The factory functions of the module\<close>

text \<open>
  Claim C8, as stated, fails: the module exports two names, no function for
  \<^verbatim>\<open>Xception71_deeplab\<close>, and the two exported functions build \<^verbatim>\<open>xception_41\<close> and
  \<^verbatim>\<open>xception_65\<close>; none builds \<^verbatim>\<open>xception_71\<close>.
\<close>

theorem no_xception_71_factory:
  "all_names = [''Xception41_deeplab'', ''Xception65_deeplab'']
   \<and> exported ''Xception71_deeplab'' = None
   \<and> dict_get MODEL_URLS ''Xception71_deeplab'' = Inl (KeyError ''Xception71_deeplab'')
   \<and> factory_backbone ''Xception41_deeplab'' = Some (Inr ''xception_41'')
   \<and> factory_backbone ''Xception65_deeplab'' = Some (Inr ''xception_65'')"
proof -
  from Xception41_deeplab_built [of 1000]
  have "map_sum id backbone (snd (Xception41_deeplab (PyBool False) False 1000)) = Inr ''xception_41''"
    by (auto simp: load_pretrained_cases)
  moreover from Xception65_deeplab_built [of 1000]
  have "map_sum id backbone (snd (Xception65_deeplab (PyBool False) False 1000)) = Inr ''xception_65''"
    by (auto simp: load_pretrained_cases)
  ultimately show ?thesis
    by (simp add: all_names_def MODEL_URLS_def exported_def factory_backbone_def dict_get_def)
qed

text \<open>
  Claim C8, amended. The module exports a factory function for two of the variants,
  \<^verbatim>\<open>Xception41_deeplab\<close> and \<^verbatim>\<open>Xception65_deeplab\<close>. Each builds the \<^verbatim>\<open>XceptionDeeplab\<close> model
  of its backbone and returns it: with no loader call for \<^verbatim>\<open>pretrained=False\<close>, after one
  call of the URL loader with its registered URL for \<^verbatim>\<open>pretrained=True\<close>, and after one
  call of the path loader for a string. The \<^verbatim>\<open>xception_71\<close> variant is built by the
  constructor \<^verbatim>\<open>XceptionDeeplab\<close> alone.
\<close>

theorem two_factory_functions:
  "all_names = [''Xception41_deeplab'', ''Xception65_deeplab'']
   \<and> exported ''Xception41_deeplab'' = Some Xception41_deeplab
   \<and> exported ''Xception65_deeplab'' = Some Xception65_deeplab
   \<and> (\<exists>m. XceptionDeeplab ''xception_41'' cd = Inr m \<and> backbone m = ''xception_41''
        \<and> Xception41_deeplab (PyBool False) ssld cd = ([], Inr m)
        \<and> Xception41_deeplab (PyBool True) ssld cd =
            ([load_dygraph_pretrain_from_url m
               ''https://paddle-imagenet-models-name.bj.bcebos.com/dygraph/Xception41_deeplab_pretrained.pdparams''
               ssld], Inr m)
        \<and> Xception41_deeplab (PyStr path) ssld cd = ([load_dygraph_pretrain m path], Inr m))
   \<and> (\<exists>m. XceptionDeeplab ''xception_65'' cd = Inr m \<and> backbone m = ''xception_65''
        \<and> Xception65_deeplab (PyBool False) ssld cd = ([], Inr m)
        \<and> Xception65_deeplab (PyBool True) ssld cd =
            ([load_dygraph_pretrain_from_url m
               ''https://paddle-imagenet-models-name.bj.bcebos.com/dygraph/Xception65_deeplab_pretrained.pdparams''
               ssld], Inr m)
        \<and> Xception65_deeplab (PyStr path) ssld cd = ([load_dygraph_pretrain m path], Inr m))
   \<and> (\<exists>m. XceptionDeeplab ''xception_71'' cd = Inr m \<and> backbone m = ''xception_71'')"
proof -
  from Xception41_deeplab_built [of cd] obtain m41 where
    a: "XceptionDeeplab ''xception_41'' cd = Inr m41" "backbone m41 = ''xception_41''"
       "\<And>p ssld. Xception41_deeplab p ssld cd =
        (case load_pretrained p m41
           ''https://paddle-imagenet-models-name.bj.bcebos.com/dygraph/Xception41_deeplab_pretrained.pdparams''
           ssld of
           (calls, Inl e) \<Rightarrow> (calls, Inl e) | (calls, Inr u) \<Rightarrow> (calls, Inr m41))"
    by blast
  from Xception65_deeplab_built [of cd] obtain m65 where
    b: "XceptionDeeplab ''xception_65'' cd = Inr m65" "backbone m65 = ''xception_65''"
       "\<And>p ssld. Xception65_deeplab p ssld cd =
        (case load_pretrained p m65
           ''https://paddle-imagenet-models-name.bj.bcebos.com/dygraph/Xception65_deeplab_pretrained.pdparams''
           ssld of
           (calls, Inl e) \<Rightarrow> (calls, Inl e) | (calls, Inr u) \<Rightarrow> (calls, Inr m65))"
    by blast
  from build_xception_71 [of cd] obtain m71 where
    c: "XceptionDeeplab ''xception_71'' cd = Inr m71" "backbone m71 = ''xception_71''"
    by (elim exE conjE) (rule that)
  have d: "all_names = [''Xception41_deeplab'', ''Xception65_deeplab'']"
    "exported ''Xception41_deeplab'' = Some Xception41_deeplab"
    "exported ''Xception65_deeplab'' = Some Xception65_deeplab"
    by (simp_all add: all_names_def MODEL_URLS_def exported_def)
  show ?thesis
    by (simp add: a b c d load_pretrained_cases)
qed

end
